theory Spec2Isabelle
  imports Main "HOL-Library.Sublist"
begin

section \<open>BioMonkey: the SRA download and quality-gate pipeline\<close>

text \<open>
  A shallow embedding of \<^verbatim>\<open>sra_downloader.py\<close> and of the counting loop of
  \<^verbatim>\<open>app.py\<close>. The file system is a map from path strings to nodes, the log is the
  list of messages written so far, and every collaborator outside the program (the HTTP
  transport, the FastQC executable, the NCBI catalog) is a field of an environment
  record. Exceptions are values of a sum type.
\<close>

subsection \<open>Paths (posixpath)\<close>

type_synonym path = string

definition path_join :: "path \<Rightarrow> path \<Rightarrow> path" where
  \<comment> \<open>\<^verbatim>\<open>os.path.join(a, b)\<close>: an absolute second component replaces the first.\<close>
  "path_join a b =
     (if b \<noteq> [] \<and> hd b = CHR ''/'' then b
      else if a = [] \<or> last a = CHR ''/'' then a @ b
      else a @ ''/'' @ b)"

definition basename :: "path \<Rightarrow> path" where
  \<comment> \<open>\<^verbatim>\<open>os.path.basename\<close>: what follows the last slash.\<close>
  "basename p = rev (takeWhile (\<lambda>c. c \<noteq> CHR ''/'') (rev p))"

definition dirname :: "path \<Rightarrow> path" where
  \<comment> \<open>\<^verbatim>\<open>os.path.dirname\<close>: the part up to the last slash, trailing slashes stripped
      unless it consists of slashes only.\<close>
  "dirname p =
     (let h = rev (dropWhile (\<lambda>c. c \<noteq> CHR ''/'') (rev p))
      in if h \<noteq> [] \<and> \<not> list_all (\<lambda>c. c = CHR ''/'') h
         then rev (dropWhile (\<lambda>c. c = CHR ''/'') (rev h)) else h)"

subsection \<open>Strings\<close>

fun replace_from :: "string \<Rightarrow> string \<Rightarrow> nat \<Rightarrow> string \<Rightarrow> string" where
  \<comment> \<open>\<^verbatim>\<open>s.replace(old, new)\<close> for a non-empty \<open>old\<close>, scanning from the left; the
      counter is the number of characters of a matched occurrence still to skip.\<close>
  "replace_from old new k [] = []"
| "replace_from old new (Suc k) (c # cs) = replace_from old new k cs"
| "replace_from old new 0 (c # cs) =
     (if prefix old (c # cs) then new @ replace_from old new (length old - 1) cs
      else c # replace_from old new 0 cs)"

definition str_replace :: "string \<Rightarrow> string \<Rightarrow> string \<Rightarrow> string" where
  "str_replace s old new = replace_from old new 0 s"

definition is_space :: "char \<Rightarrow> bool" where
  "is_space c = (c \<in> set [CHR '' '', CHR 0x09, CHR 0x0A, CHR 0x0B, CHR 0x0C, CHR 0x0D])"

definition strip :: "string \<Rightarrow> string" where
  \<comment> \<open>\<^verbatim>\<open>line.strip()\<close>\<close>
  "strip s = rev (dropWhile is_space (rev (dropWhile is_space s)))"

fun text_lines :: "string \<Rightarrow> bool \<Rightarrow> string \<Rightarrow> string list" where
  \<comment> \<open>Iterating a file opened in text mode: universal newlines, each line keeps its
      terminator as a line feed. The flag says that the last character was a carriage
      return, whose following line feed belongs to the same terminator.\<close>
  "text_lines cur cr [] = (if cur = [] then [] else [cur])"
| "text_lines cur cr (c # cs) =
     (if c = CHR 0x0D then (cur @ [CHR 0x0A]) # text_lines [] True cs
      else if c = CHR 0x0A then
        (if cr \<and> cur = [] then text_lines [] False cs
         else (cur @ [CHR 0x0A]) # text_lines [] False cs)
      else text_lines (cur @ [c]) False cs)"

definition digit_char :: "nat \<Rightarrow> char" where
  "digit_char d = ''0123456789'' ! d"

function str_nat :: "nat \<Rightarrow> string" where
  "str_nat n = (if n < 10 then [digit_char n] else str_nat (n div 10) @ [digit_char (n mod 10)])"
  by pat_completeness auto
termination
  by (relation "measure id") auto

definition str_int :: "int \<Rightarrow> string" where
  \<comment> \<open>\<^verbatim>\<open>str(i)\<close> of a Python integer\<close>
  "str_int i = (if i < 0 then ''-'' @ str_nat (nat (- i)) else str_nat (nat i))"

subsection \<open>Exceptions, the file system, the log\<close>

datatype exn =
    KeyError string
  | NameError string
  | TransportError string
  | FileNotFoundError path
  | FileExistsError path
  | IsADirectoryError path
  | NotADirectoryError path
  | SameFileError path
  | PlainException string

fun str_exn :: "exn \<Rightarrow> string" where
  \<comment> \<open>\<^verbatim>\<open>str(e)\<close>\<close>
  "str_exn (KeyError k) = [CHR 0x27] @ k @ [CHR 0x27]"
| "str_exn (NameError n) = ''name '' @ [CHR 0x27] @ n @ [CHR 0x27] @ '' is not defined''"
| "str_exn (TransportError m) = m"
| "str_exn (FileNotFoundError p) = ''[Errno 2] No such file or directory: '' @ [CHR 0x27] @ p @ [CHR 0x27]"
| "str_exn (FileExistsError p) = ''[Errno 17] File exists: '' @ [CHR 0x27] @ p @ [CHR 0x27]"
| "str_exn (IsADirectoryError p) = ''[Errno 21] Is a directory: '' @ [CHR 0x27] @ p @ [CHR 0x27]"
| "str_exn (NotADirectoryError p) = ''[Errno 20] Not a directory: '' @ [CHR 0x27] @ p @ [CHR 0x27]"
| "str_exn (SameFileError p) = [CHR 0x27] @ p @ [CHR 0x27] @ '' and '' @ [CHR 0x27] @ p @ [CHR 0x27] @ '' are the same file''"
| "str_exn (PlainException m) = m"

datatype node = File string | Dir

type_synonym filesystem = "path \<rightharpoonup> node"

text \<open>
  A path names a regular file with its bytes, a directory, or nothing. The operations
  fail where the kind of the node makes the system call fail, and creating a file fails
  where the directory it would stand in is missing or is a regular file. Paths are
  compared as they are spelt. Permissions and full disks are not represented.
\<close>

definition path_exists :: "filesystem \<Rightarrow> path \<Rightarrow> bool" where
  "path_exists fs p = (fs p \<noteq> None)"

definition under :: "path \<Rightarrow> path \<Rightarrow> bool" where
  \<comment> \<open>\<open>p\<close> lies inside the directory \<open>d\<close>\<close>
  "under d p = prefix (path_join d []) p"

definition os_remove :: "filesystem \<Rightarrow> path \<Rightarrow> exn + filesystem" where
  "os_remove fs p =
     (case fs p of
        None \<Rightarrow> Inl (FileNotFoundError p)
      | Some Dir \<Rightarrow> Inl (IsADirectoryError p)
      | Some (File c) \<Rightarrow> Inr (fs(p := None)))"

definition makedirs :: "filesystem \<Rightarrow> path \<Rightarrow> exn + filesystem" where
  \<comment> \<open>\<^verbatim>\<open>os.makedirs(p, exist_ok=True)\<close>\<close>
  "makedirs fs p =
     (case fs p of
        None \<Rightarrow> Inr (fs(p \<mapsto> Dir))
      | Some Dir \<Rightarrow> Inr fs
      | Some (File c) \<Rightarrow> Inl (FileExistsError p))"

definition rmtree :: "filesystem \<Rightarrow> path \<Rightarrow> exn + filesystem" where
  \<comment> \<open>\<^verbatim>\<open>shutil.rmtree(d)\<close>\<close>
  "rmtree fs d =
     (case fs d of
        None \<Rightarrow> Inl (FileNotFoundError d)
      | Some (File c) \<Rightarrow> Inl (NotADirectoryError d)
      | Some Dir \<Rightarrow> Inr (\<lambda>p. if p = d \<or> under d p then None else fs p))"

definition parent_error :: "filesystem \<Rightarrow> path \<Rightarrow> exn option" where
  \<comment> \<open>The error of creating an entry at \<open>p\<close> that comes from the directory \<open>p\<close> would
      stand in. The working directory (an empty directory part) and the root exist.\<close>
  "parent_error fs p =
     (let d = dirname p
      in if list_all (\<lambda>c. c = CHR ''/'') d then None
         else (case fs d of
                 None \<Rightarrow> Some (FileNotFoundError p)
               | Some (File c) \<Rightarrow> Some (NotADirectoryError p)
               | Some Dir \<Rightarrow> None))"

definition open_wb :: "filesystem \<Rightarrow> path \<Rightarrow> exn + filesystem" where
  \<comment> \<open>\<^verbatim>\<open>open(p, 'wb')\<close>: creates or truncates\<close>
  "open_wb fs p =
     (case fs p of
        Some Dir \<Rightarrow> Inl (IsADirectoryError p)
      | _ \<Rightarrow> (case parent_error fs p of
                Some x \<Rightarrow> Inl x
              | None \<Rightarrow> Inr (fs(p \<mapsto> File []))))"

definition write_chunk :: "filesystem \<Rightarrow> path \<Rightarrow> string \<Rightarrow> filesystem" where
  "write_chunk fs p chunk =
     (case fs p of Some (File c) \<Rightarrow> fs(p \<mapsto> File (c @ chunk)) | _ \<Rightarrow> fs)"

definition getsize :: "filesystem \<Rightarrow> path \<Rightarrow> exn + int" where
  "getsize fs p =
     (case fs p of
        None \<Rightarrow> Inl (FileNotFoundError p)
      | Some Dir \<Rightarrow> Inr 4096
      | Some (File c) \<Rightarrow> Inr (int (length c)))"

definition read_lines :: "filesystem \<Rightarrow> path \<Rightarrow> exn + string list" where
  \<comment> \<open>\<^verbatim>\<open>open(p, 'r')\<close> and iteration over the lines\<close>
  "read_lines fs p =
     (case fs p of
        None \<Rightarrow> Inl (FileNotFoundError p)
      | Some Dir \<Rightarrow> Inl (IsADirectoryError p)
      | Some (File c) \<Rightarrow> Inr (text_lines [] False c))"

definition copy2 :: "filesystem \<Rightarrow> path \<Rightarrow> path \<Rightarrow> exn + filesystem" where
  \<comment> \<open>\<^verbatim>\<open>shutil.copy2(src, dst)\<close>: a directory as destination receives the file under
      the source's base name; copying a file onto itself is refused.\<close>
  "copy2 fs src dst =
     (case fs src of
        None \<Rightarrow> Inl (FileNotFoundError src)
      | Some Dir \<Rightarrow> Inl (IsADirectoryError src)
      | Some (File c) \<Rightarrow>
          (let target = (if fs dst = Some Dir then path_join dst (basename src) else dst)
           in if target = src then Inl (SameFileError src)
              else if fs target = Some Dir then Inl (IsADirectoryError target)
              else Inr (fs(target \<mapsto> File c))))"

datatype log_msg =
    FileAlreadyExists string
  | SuccessfullyDownloaded string
  | FailedToDownload string string
  | FilePassed string
  | ErrorProcessing string string
  | RunningFastQC string
  | SummaryNotFound path
  | QualityIssues string string
  | PassedAndCopied path
  | ErrorRunningFastQC path string
  | StartingProcess string int
  | NoMoreDatasets
  | CleanCollected int int
  | ReachedEnd
  | ErrorMainLoop string
  | ProcessCompleted int
  | CouldOnlyCollect int int


record world =
  files :: filesystem
  log :: "log_msg list"

definition logging :: "world \<Rightarrow> log_msg \<Rightarrow> world" where
  "logging w m = w\<lparr>log := log w @ [m]\<rparr>"

subsection \<open>The environment\<close>

datatype head_result =
    HeadRaises exn
  | HeadOk "int option"

datatype get_result =
    GetRaises exn
  | GetStream "string list" "exn option"

datatype inspector_output =
    NoOutput
  | Extracted "node option"

type_synonym run_info = "string \<rightharpoonup> string"

text \<open>
  \<open>http_head\<close> answers the size probe: \<open>HeadRaises\<close> is any exception of the request or
  of reading the length, \<open>HeadOk None\<close> a response without a content-length header.
  \<open>http_get\<close> answers the body request: \<open>GetRaises\<close> is an exception before the local
  file is opened (connection, \<^verbatim>\<open>raise_for_status\<close>), \<open>GetStream cs e\<close> delivers the
  chunks \<open>cs\<close> and then ends, or raises \<open>e\<close>. \<open>inspector\<close> is the FastQC run on a file:
  it leaves nothing, or the extracted result directory with or without a node at
  \<^verbatim>\<open>summary.txt\<close>. \<open>esearch\<close> and \<open>efetch\<close> are the two catalog calls of
  \<^verbatim>\<open>get_uid_from_term\<close> and \<^verbatim>\<open>get_sraid_from_uid\<close>, with their parsing.
\<close>

record env =
  http_head :: "string \<Rightarrow> head_result"
  http_get :: "string \<Rightarrow> get_result"
  fastqc_path :: string
  inspector :: "path \<Rightarrow> filesystem \<Rightarrow> inspector_output"
  esearch :: "string \<Rightarrow> int \<Rightarrow> int \<Rightarrow> exn + (int list \<times> int)"
  efetch :: "int list \<Rightarrow> exn + run_info list"

definition NCBI_TRACE_BASEURL :: string where
  "NCBI_TRACE_BASEURL = ''https://trace.ncbi.nlm.nih.gov/Traces/sra-reads-be/fastq?acc=''"

definition GZ_TEMP_FOLDER :: path where
  "GZ_TEMP_FOLDER = ''temp_gz_files''"

definition FASTQ_TEMP_FOLDER :: path where
  "FASTQ_TEMP_FOLDER = ''fastqc_temp''"

definition CLEAN_DATASET_FOLDER :: path where
  "CLEAN_DATASET_FOLDER = ''clean_datasets''"

subsection \<open>The fetch stage: \<^verbatim>\<open>download_single_sra_file\<close>\<close>

definition size_mismatch :: "int \<Rightarrow> int \<Rightarrow> exn" where
  "size_mismatch actual_size total_size =
     PlainException (''Downloaded file size ('' @ str_int actual_size
        @ '') is less than expected ('' @ str_int total_size @ '')'')"

definition fetch_body :: "env \<Rightarrow> string \<Rightarrow> path \<Rightarrow> filesystem \<Rightarrow> exn option \<times> filesystem" where
  \<comment> \<open>lines 166 to 189: the size probe, the streamed body, the size check; the result
      is the exception that leaves the \<^verbatim>\<open>try\<close> block, if any.\<close>
  "fetch_body e trace_url sra_file_path fs =
     (case http_head e trace_url of
        HeadRaises x \<Rightarrow> (Some x, fs)
      | HeadOk cl \<Rightarrow>
          (let total_size = (case cl of None \<Rightarrow> 0 | Some n \<Rightarrow> n) in
           case http_get e trace_url of
             GetRaises x \<Rightarrow> (Some x, fs)
           | GetStream chunks err \<Rightarrow>
               (case open_wb fs sra_file_path of
                  Inl x \<Rightarrow> (Some x, fs)
                | Inr fs1 \<Rightarrow>
                    (let fs2 = foldl (\<lambda>f c. write_chunk f sra_file_path c) fs1 chunks in
                     case err of
                       Some x \<Rightarrow> (Some x, fs2)
                     | None \<Rightarrow>
                         (case getsize fs2 sra_file_path of
                            Inl x \<Rightarrow> (Some x, fs2)
                          | Inr actual_size \<Rightarrow>
                              if actual_size < total_size
                              then (Some (size_mismatch actual_size total_size), fs2)
                              else (None, fs2))))))"

definition download_single_sra_file ::
  "env \<Rightarrow> run_info \<Rightarrow> path \<Rightarrow> world \<Rightarrow> (exn + string \<times> bool) \<times> world" where
  \<comment> \<open>A run-info row without the key \<^verbatim>\<open>run\<close> raises KeyError inside the \<^verbatim>\<open>try\<close>; the
      handler then reads the unbound \<^verbatim>\<open>sra_id\<close> and the call ends in NameError.\<close>
  "download_single_sra_file e run_info output_dir w =
     (case run_info ''run'' of
        None \<Rightarrow> (Inl (NameError ''sra_id''), w)
      | Some sra_id \<Rightarrow>
          (let trace_url = NCBI_TRACE_BASEURL @ sra_id;
               sra_file_name = sra_id @ ''.fastq.gz'';
               sra_file_path = path_join output_dir sra_file_name
           in if path_exists (files w) sra_file_path
              then (Inr (sra_id, True), logging w (FileAlreadyExists sra_file_name))
              else
                (case fetch_body e trace_url sra_file_path (files w) of
                   (None, fs) \<Rightarrow>
                     (Inr (sra_id, True),
                      logging (w\<lparr>files := fs\<rparr>) (SuccessfullyDownloaded sra_file_name))
                 | (Some x, fs) \<Rightarrow>
                     (let w1 = logging (w\<lparr>files := fs\<rparr>) (FailedToDownload sra_id (str_exn x))
                      in if path_exists fs sra_file_path
                         then (case os_remove fs sra_file_path of
                                 Inl x' \<Rightarrow> (Inl x', w1)
                               | Inr fs' \<Rightarrow> (Inr (sra_id, False), w1\<lparr>files := fs'\<rparr>))
                         else (Inr (sra_id, False), w1)))))"

subsection \<open>The quality gate\<close>

definition fastqc_output_dir_of :: "path \<Rightarrow> path" where
  "fastqc_output_dir_of temp_output_dir = path_join temp_output_dir FASTQ_TEMP_FOLDER"

definition fastqc_results_dir_of :: "path \<Rightarrow> path \<Rightarrow> path" where
  "fastqc_results_dir_of fastq_gz_file_path temp_output_dir =
     path_join (fastqc_output_dir_of temp_output_dir)
       (str_replace (basename fastq_gz_file_path) ''.fastq.gz'' ''_fastqc'')"

definition summary_file_of :: "path \<Rightarrow> path \<Rightarrow> path" where
  "summary_file_of fastq_gz_file_path temp_output_dir =
     path_join (fastqc_results_dir_of fastq_gz_file_path temp_output_dir) ''summary.txt''"

definition run_inspector :: "inspector_output \<Rightarrow> path \<Rightarrow> filesystem \<Rightarrow> filesystem" where
  \<comment> \<open>What \<^verbatim>\<open>os.system(fastqc_cmd)\<close> leaves behind, at the place where the gate looks
      for it: the result directory \<open>d\<close> and, inside, the node of the summary report.\<close>
  "run_inspector out d fs =
     (case out of
        NoOutput \<Rightarrow> fs
      | Extracted None \<Rightarrow> fs(d \<mapsto> Dir)
      | Extracted (Some n) \<Rightarrow> (fs(d \<mapsto> Dir))(path_join d ''summary.txt'' \<mapsto> n))"

definition gate_try :: "env \<Rightarrow> path \<Rightarrow> path \<Rightarrow> path \<Rightarrow> world \<Rightarrow> (exn + bool) \<times> world" where
  \<comment> \<open>the \<^verbatim>\<open>try\<close> block, lines 278 to 310: \<open>Inl\<close> is an exception on its way to the handler\<close>
  "gate_try e fastq_gz_file_path temp_output_dir clean_dataset_dir w =
     (let fastqc_output_dir = fastqc_output_dir_of temp_output_dir;
          fastqc_cmd = fastqc_path e @ '' '' @ fastq_gz_file_path @ '' -o '' @ fastqc_output_dir
                         @ '' --extract'';
          w1 = logging w (RunningFastQC fastqc_cmd);
          fastq_filename = basename fastq_gz_file_path;
          fastqc_results_dir = fastqc_results_dir_of fastq_gz_file_path temp_output_dir;
          w2 = w1\<lparr>files := run_inspector (inspector e fastq_gz_file_path (files w1))
                                fastqc_results_dir (files w1)\<rparr>;
          summary_file = summary_file_of fastq_gz_file_path temp_output_dir
      in if \<not> path_exists (files w2) summary_file
         then (Inr False, logging w2 (SummaryNotFound summary_file))
         else
           (case read_lines (files w2) summary_file of
              Inl x \<Rightarrow> (Inl x, w2)
            | Inr lines \<Rightarrow>
                (case find (sublist ''FAIL'') lines of
                   Some line \<Rightarrow> (Inr False, logging w2 (QualityIssues fastq_filename (strip line)))
                 | None \<Rightarrow>
                     (case makedirs (files w2) clean_dataset_dir of
                        Inl x \<Rightarrow> (Inl x, w2)
                      | Inr fs3 \<Rightarrow>
                          (let clean_file_path = path_join clean_dataset_dir fastq_filename in
                           case copy2 fs3 fastq_gz_file_path clean_file_path of
                             Inl x \<Rightarrow> (Inl x, w2\<lparr>files := fs3\<rparr>)
                           | Inr fs4 \<Rightarrow>
                               (Inr True,
                                logging (w2\<lparr>files := fs4\<rparr>) (PassedAndCopied clean_file_path)))))))"

definition run_fastqc_and_save_in_clean_dataset_folder_if_all_params_in_summary_txt_file_are_NOT_FAIL ::
  "env \<Rightarrow> path \<Rightarrow> path \<Rightarrow> path \<Rightarrow> world \<Rightarrow> (exn + bool) \<times> world" where
  \<comment> \<open>\<^verbatim>\<open>makedirs\<close> of line 275 is outside the \<^verbatim>\<open>try\<close>; the handler turns an exception of
      the block into \<^verbatim>\<open>False\<close>; an exception of the \<^verbatim>\<open>finally\<close> clause replaces the result.\<close>
  "run_fastqc_and_save_in_clean_dataset_folder_if_all_params_in_summary_txt_file_are_NOT_FAIL
      e fastq_gz_file_path temp_output_dir clean_dataset_dir w =
     (case makedirs (files w) (fastqc_output_dir_of temp_output_dir) of
        Inl x \<Rightarrow> (Inl x, w)
      | Inr fs0 \<Rightarrow>
          (let (r, w1) = gate_try e fastq_gz_file_path temp_output_dir clean_dataset_dir
                           (w\<lparr>files := fs0\<rparr>);
               (b, w2) = (case r of
                            Inl x \<Rightarrow> (False, logging w1 (ErrorRunningFastQC fastq_gz_file_path (str_exn x)))
                          | Inr b \<Rightarrow> (b, w1));
               fastqc_results_dir = fastqc_results_dir_of fastq_gz_file_path temp_output_dir
           in if path_exists (files w2) fastqc_results_dir
              then (case rmtree (files w2) fastqc_results_dir of
                      Inl x \<Rightarrow> (Inl x, w2)
                    | Inr fs \<Rightarrow> (Inr b, w2\<lparr>files := fs\<rparr>))
              else (Inr b, w2)))"

definition process_downloaded_file ::
  "env \<Rightarrow> string \<Rightarrow> path \<Rightarrow> path \<Rightarrow> world \<Rightarrow> (exn + bool) \<times> world" where
  "process_downloaded_file e sra_id gz_file_path clean_dataset_dir w =
     (let (b, w1) =
            (if \<not> path_exists (files w) gz_file_path then (False, w)
             else
               (let temp_output_dir = dirname gz_file_path in
                case run_fastqc_and_save_in_clean_dataset_folder_if_all_params_in_summary_txt_file_are_NOT_FAIL
                       e gz_file_path temp_output_dir clean_dataset_dir w of
                  (Inr True, w') \<Rightarrow> (True, logging w' (FilePassed sra_id))
                | (Inr False, w') \<Rightarrow> (False, w')
                | (Inl x, w') \<Rightarrow> (False, logging w' (ErrorProcessing sra_id (str_exn x)))))
      in if path_exists (files w1) gz_file_path
         then (case os_remove (files w1) gz_file_path of
                 Inl x \<Rightarrow> (Inl x, w1)
               | Inr fs \<Rightarrow> (Inr b, w1\<lparr>files := fs\<rparr>))
         else (Inr b, w1))"

subsection \<open>One page: \<^verbatim>\<open>download_and_process_parallel\<close>\<close>

text \<open>
  The worker threads are not represented. The futures complete in the order of the
  list, and each download has finished when the controller takes its result: one
  schedule of the pool, the one every schedule is equivalent to when the identifiers of
  a page are distinct, since the items then touch disjoint paths.
\<close>

definition handle_completed ::
  "env \<Rightarrow> path \<Rightarrow> path \<Rightarrow> run_info \<Rightarrow> string list \<Rightarrow> world \<Rightarrow> (exn + string list) \<times> world" where
  \<comment> \<open>the body of the loop over the completed futures, lines 249 to 253\<close>
  "handle_completed e output_dir clean_dataset_dir run_info processed_files w =
     (case download_single_sra_file e run_info output_dir w of
        (Inl x, w1) \<Rightarrow> (Inl x, w1)
      | (Inr (sra_id, success), w1) \<Rightarrow>
          if success
          then (let gz_file_path = path_join output_dir (sra_id @ ''.fastq.gz'') in
                case process_downloaded_file e sra_id gz_file_path clean_dataset_dir w1 of
                  (Inl x, w2) \<Rightarrow> (Inl x, w2)
                | (Inr b, w2) \<Rightarrow> (Inr (if b then processed_files @ [sra_id] else processed_files), w2))
          else (Inr processed_files, w1))"

fun drain ::
  "env \<Rightarrow> path \<Rightarrow> path \<Rightarrow> run_info list \<Rightarrow> string list \<Rightarrow> world \<Rightarrow> (exn + string list) \<times> world" where
  "drain e output_dir clean_dataset_dir [] processed_files w = (Inr processed_files, w)"
| "drain e output_dir clean_dataset_dir (run_info # rest) processed_files w =
     (case handle_completed e output_dir clean_dataset_dir run_info processed_files w of
        (Inl x, w1) \<Rightarrow> (Inl x, w1)
      | (Inr processed_files', w1) \<Rightarrow> drain e output_dir clean_dataset_dir rest processed_files' w1)"

definition has_run :: "run_info \<Rightarrow> bool" where
  "has_run run_info = (run_info ''run'' \<noteq> None)"

definition download_and_process_parallel ::
  "env \<Rightarrow> run_info list \<Rightarrow> path \<Rightarrow> path \<Rightarrow> world \<Rightarrow> (exn + string list) \<times> world" where
  \<comment> \<open>The dictionary of futures is built first: a row without \<^verbatim>\<open>run\<close> raises KeyError
      there, after the rows before it were submitted; their downloads run to the end
      when the pool shuts down, and nothing is processed.\<close>
  "download_and_process_parallel e run_info_list output_dir clean_dataset_dir w =
     (case makedirs (files w) output_dir of
        Inl x \<Rightarrow> (Inl x, w)
      | Inr fs0 \<Rightarrow>
          if list_all has_run run_info_list
          then drain e output_dir clean_dataset_dir run_info_list [] (w\<lparr>files := fs0\<rparr>)
          else (Inl (KeyError ''run''),
                foldl (\<lambda>w' run_info. snd (download_single_sra_file e run_info output_dir w'))
                  (w\<lparr>files := fs0\<rparr>) (takeWhile has_run run_info_list)))"

subsection \<open>The controller: \<^verbatim>\<open>main\<close>\<close>

record controller =
  retstart :: int
  clean_datasets_count :: int
  wld :: world

datatype flow = Continue | Break

definition batch_size :: int where
  "batch_size = 10"

definition main_body :: "env \<Rightarrow> string \<Rightarrow> int \<Rightarrow> controller \<Rightarrow> flow \<times> controller" where
  \<comment> \<open>one pass through the body of the \<^verbatim>\<open>while\<close> loop, lines 333 to 362; the handler
      of line 360 logs and continues. The log lines of the two catalog calls themselves
      are not represented.\<close>
  "main_body e search_term num_clean_datasets c =
     (let handler = (\<lambda>x w. (Continue, c\<lparr>wld := logging w (ErrorMainLoop (str_exn x))\<rparr>)) in
      case esearch e search_term batch_size (retstart c) of
        Inl x \<Rightarrow> handler x (wld c)
      | Inr (uids, max_count) \<Rightarrow>
          if uids = [] then (Break, c\<lparr>wld := logging (wld c) NoMoreDatasets\<rparr>)
          else
            (case efetch e uids of
               Inl x \<Rightarrow> handler x (wld c)
             | Inr run_info_list \<Rightarrow>
                 (case download_and_process_parallel e run_info_list GZ_TEMP_FOLDER
                         CLEAN_DATASET_FOLDER (wld c) of
                    (Inl x, w1) \<Rightarrow> handler x w1
                  | (Inr processed_files, w1) \<Rightarrow>
                      (let count = clean_datasets_count c + int (length processed_files);
                           w2 = logging w1 (CleanCollected count num_clean_datasets);
                           c1 = c\<lparr>clean_datasets_count := count, wld := w2\<rparr>
                       in if count \<ge> num_clean_datasets then (Break, c1)
                          else
                            (let c2 = c1\<lparr>retstart := retstart c + batch_size\<rparr>
                             in if retstart c2 \<ge> max_count
                                then (Break, c2\<lparr>wld := logging w2 ReachedEnd\<rparr>)
                                else (Continue, c2))))))"

fun main_loop :: "env list \<Rightarrow> string \<Rightarrow> int \<Rightarrow> controller \<Rightarrow> controller option" where
  \<comment> \<open>The \<^verbatim>\<open>while\<close> loop. The catalog and the network may answer differently each time,
      so every pass has its own environment; \<open>None\<close> says that the loop is still running
      when the given passes are used up.\<close>
  "main_loop [] search_term num_clean_datasets c =
     (if clean_datasets_count c < num_clean_datasets then None else Some c)"
| "main_loop (e # es) search_term num_clean_datasets c =
     (if clean_datasets_count c < num_clean_datasets
      then (case main_body e search_term num_clean_datasets c of
              (Break, c') \<Rightarrow> Some c'
            | (Continue, c') \<Rightarrow> main_loop es search_term num_clean_datasets c')
      else Some c)"

datatype outcome = DoneSuccess | DonePartial

definition final_report :: "int \<Rightarrow> controller \<Rightarrow> outcome \<times> controller" where
  \<comment> \<open>lines 369 to 371: the run ends short of the target exactly when the warning is logged\<close>
  "final_report num_clean_datasets c =
     (let w1 = logging (wld c) (ProcessCompleted (clean_datasets_count c))
      in if clean_datasets_count c < num_clean_datasets
         then (DonePartial,
               c\<lparr>wld := logging w1 (CouldOnlyCollect (clean_datasets_count c) num_clean_datasets)\<rparr>)
         else (DoneSuccess, c\<lparr>wld := w1\<rparr>))"

definition main :: "env list \<Rightarrow> string \<Rightarrow> int \<Rightarrow> world \<Rightarrow> (exn + outcome \<times> controller) option" where
  \<comment> \<open>\<^verbatim>\<open>makedirs\<close> of line 329 is outside every handler: its exception ends the run.\<close>
  "main es search_term num_clean_datasets w =
     (let w0 = logging w (StartingProcess search_term num_clean_datasets) in
      case makedirs (files w0) GZ_TEMP_FOLDER of
        Inl x \<Rightarrow> Some (Inl x)
      | Inr fs \<Rightarrow>
          map_option (\<lambda>c. Inr (final_report num_clean_datasets c))
            (main_loop es search_term num_clean_datasets
               \<lparr>retstart = 0, clean_datasets_count = 0, wld = w0\<lparr>files := fs\<rparr>\<rparr>))"

subsection \<open>The monitor: the counters of \<^verbatim>\<open>app.py\<close>\<close>




fun split_from :: "string \<Rightarrow> string \<Rightarrow> string list" where
  "split_from cur [] = [cur]"
| "split_from cur (c # cs) =
     (if c = CHR 0x0A then cur # split_from [] cs else split_from (cur @ [c]) cs)"

definition split_newline :: "string \<Rightarrow> string list" where
  \<comment> \<open>\<^verbatim>\<open>log_content.split('\n')\<close>\<close>
  "split_newline s = split_from [] s"

definition count_line :: "nat \<times> nat \<Rightarrow> string \<Rightarrow> nat \<times> nat" where
  \<comment> \<open>lines 238 to 242 on the pair \<^verbatim>\<open>(total_checked, current_clean)\<close>\<close>
  "count_line s line =
     (case s of (total_checked, current_clean) \<Rightarrow>
        if sublist ''FastQC found quality issues'' line then (total_checked + 1, current_clean)
        else if sublist ''File passed quality check'' line then (total_checked + 1, current_clean + 1)
        else (total_checked, current_clean))"

definition scan_log :: "nat \<times> nat \<Rightarrow> string \<Rightarrow> nat \<times> nat" where
  \<comment> \<open>one pass of the monitor over the content of the log file\<close>
  "scan_log s log_content = foldl count_line s (split_newline log_content)"

definition monitor :: "string list \<Rightarrow> nat \<times> nat" where
  \<comment> \<open>the counters after the polls that read the given contents, one after the other;
      the counters are initialised once, before the polling loop\<close>
  "monitor contents = foldl scan_log (0, 0) contents"

subsection \<open>Predicates on files and on the log\<close>



















subsection \<open>Example inputs\<close>

definition ex_row :: run_info where
  "ex_row = [''run'' \<mapsto> ''SRR1'']"

definition ex_env :: "head_result \<Rightarrow> get_result \<Rightarrow> inspector_output \<Rightarrow> env" where
  "ex_env h g out =
     \<lparr>http_head = (\<lambda>u. h), http_get = (\<lambda>u. g), fastqc_path = ''fastqc'',
      inspector = (\<lambda>p fs. out),
      esearch = (\<lambda>t m s. Inr ([], 0)), efetch = (\<lambda>uids. Inr [])\<rparr>"

definition ex_world :: "(path \<times> node) list \<Rightarrow> world" where
  "ex_world entries = \<lparr>files = map_of entries, log = []\<rparr>"


definition ex_catalog :: "int \<Rightarrow> int \<Rightarrow> inspector_output \<Rightarrow> env" where
  "ex_catalog n avail out =
     \<lparr>http_head = (\<lambda>u. HeadOk None), http_get = (\<lambda>u. GetStream [''ACGT''] None),
      fastqc_path = ''fastqc'', inspector = (\<lambda>p fs. out),
      esearch = (\<lambda>t m s. Inr (map (\<lambda>i. s + 1 + int i) (upt 0 (nat (min m n))), avail)),
      efetch = (\<lambda>uids. Inr (map (\<lambda>u. [''run'' \<mapsto> ''SRR'' @ str_int u]) uids))\<rparr>"

definition ex_good_report :: string where
  "ex_good_report = ''PASS'' @ [CHR 0x09] @ ''Basic Statistics'' @ [CHR 0x0A]
      @ ''WARN'' @ [CHR 0x09] @ ''Per base sequence content'' @ [CHR 0x0A]"

definition ex_bad_report :: string where
  "ex_bad_report = ''PASS'' @ [CHR 0x09] @ ''Basic Statistics'' @ [CHR 0x0A]
      @ ''FAIL'' @ [CHR 0x09] @ ''Per base sequence content'' @ [CHR 0x0A]"

definition ex_pass :: inspector_output where
  "ex_pass = Extracted (Some (File ex_good_report))"

definition ex_fail :: inspector_output where
  "ex_fail = Extracted (Some (File ex_bad_report))"

definition outcome_of :: "(exn + outcome \<times> controller) option \<Rightarrow> (exn + outcome \<times> int \<times> int) option" where
  "outcome_of r = map_option (map_sum id (\<lambda>(out, c). (out, clean_datasets_count c, retstart c))) r"

definition ex_start :: "int \<Rightarrow> controller" where
  "ex_start num =
     \<lparr>retstart = 0, clean_datasets_count = 0,
      wld = \<lparr>files = [''temp_gz_files'' \<mapsto> Dir], log = [StartingProcess ''cancer'' num]\<rparr>\<rparr>"

definition ex_answers :: "(exn + int list \<times> int) \<Rightarrow> (exn + run_info list) \<Rightarrow> env" where
  "ex_answers found fetched =
     \<lparr>http_head = (\<lambda>u. HeadOk None), http_get = (\<lambda>u. GetStream [''ACGT''] None),
      fastqc_path = ''fastqc'', inspector = (\<lambda>p fs. NoOutput),
      esearch = (\<lambda>t m s. found), efetch = (\<lambda>uids. fetched)\<rparr>"

definition ex_unavailable :: exn where
  "ex_unavailable = PlainException ''Failed to fetch data from NCBI: 500''"







section \<open>Properties of the fetch stage\<close>

lemma write_chunks_file:
  "fs p = Some (File c0) \<Longrightarrow>
   foldl (\<lambda>f c. write_chunk f p c) fs chunks = fs(p \<mapsto> File (c0 @ concat chunks))"
proof (induction chunks arbitrary: fs c0)
  case Nil
  then show ?case by (simp add: fun_upd_idem)
next
  case (Cons a chunks)
  have "write_chunk fs p a p = Some (File (c0 @ a))"
    using Cons.prems by (simp add: write_chunk_def)
  then have "foldl (\<lambda>f c. write_chunk f p c) (write_chunk fs p a) chunks
        = (write_chunk fs p a)(p \<mapsto> File ((c0 @ a) @ concat chunks))"
    by (rule Cons.IH)
  then show ?case
    using Cons.prems by (simp add: write_chunk_def)
qed

lemma parent_error_dir: "fs (dirname p) = Some Dir \<Longrightarrow> parent_error fs p = None"
  by (simp add: parent_error_def Let_def)


lemma fetch_body_stream_complete:
  assumes "fs p = None" "parent_error fs p = None"
    and "http_head e u = HeadOk cl" "http_get e u = GetStream chunks None"
  shows "fetch_body e u p fs =
     (let total = (case cl of None \<Rightarrow> 0 | Some n \<Rightarrow> n); actual = int (length (concat chunks)) in
      (if actual < total then Some (size_mismatch actual total) else None,
       fs(p \<mapsto> File (concat chunks))))"
proof -
  have "foldl (\<lambda>f c. write_chunk f p c) (fs(p \<mapsto> File [])) chunks = fs(p \<mapsto> File (concat chunks))"
    using write_chunks_file[of "fs(p \<mapsto> File [])" p "[]" chunks] by simp
  then show ?thesis
    using assms by (simp add: fetch_body_def open_wb_def getsize_def Let_def)
qed

lemma fetch_body_no_parent:
  assumes "fs p = None" "parent_error fs p = Some x"
    and "http_head e u = HeadOk cl" "http_get e u = GetStream chunks err"
  shows "fetch_body e u p fs = (Some x, fs)"
  using assms by (simp add: fetch_body_def open_wb_def Let_def)

lemma fetch_body_success_exists:
  "fetch_body e u p fs = (None, fs') \<Longrightarrow> fs' p \<noteq> None"
  apply (auto simp: fetch_body_def open_wb_def getsize_def Let_def
      split: head_result.splits get_result.splits option.splits node.splits sum.splits if_splits)
  done

lemma download_success_exists:
  "download_single_sra_file e run_info output_dir w = (Inr (sra_id, True), w1) \<Longrightarrow>
   run_info ''run'' = Some sra_id \<and>
   path_exists (files w1) (path_join output_dir (sra_id @ ''.fastq.gz''))"
  by (auto simp: download_single_sra_file_def Let_def logging_def path_exists_def
      split: option.splits if_splits prod.splits sum.splits
      dest: fetch_body_success_exists)

lemma ex_blob_parent:
  "path_join ''temp_gz_files'' ''SRR1.fastq.gz'' = ''temp_gz_files/SRR1.fastq.gz''"
  "dirname ''temp_gz_files/SRR1.fastq.gz'' = ''temp_gz_files''"
  by code_simp+

text \<open>
  Claim C5. When a node already exists at the local path of an identifier (the scratch
  directory joined with the identifier and \<^verbatim>\<open>.fastq.gz\<close>), the fetch stage returns
  success at once: the result does not depend on the network and the files are left as
  they were. So after any successful fetch, a second fetch of the same row succeeds
  without touching the files, whatever the network does then.
\<close>

theorem fetch_existing_blob_idempotent:
  assumes "run_info ''run'' = Some sra_id"
  shows "(path_exists (files w) (path_join output_dir (sra_id @ ''.fastq.gz'')) \<longrightarrow>
            download_single_sra_file e run_info output_dir w =
              (Inr (sra_id, True), logging w (FileAlreadyExists (sra_id @ ''.fastq.gz''))))
       \<and> (download_single_sra_file e run_info output_dir w = (Inr (sra_id, True), w1) \<longrightarrow>
            download_single_sra_file e' run_info output_dir w1 =
              (Inr (sra_id, True), logging w1 (FileAlreadyExists (sra_id @ ''.fastq.gz''))))"
proof -
  have skip: "download_single_sra_file e0 run_info output_dir w0 =
      (Inr (sra_id, True), logging w0 (FileAlreadyExists (sra_id @ ''.fastq.gz'')))"
    if "path_exists (files w0) (path_join output_dir (sra_id @ ''.fastq.gz''))" for e0 w0
    using that assms by (simp add: download_single_sra_file_def Let_def)
  show ?thesis
    using skip download_success_exists by blast
qed

theorem fetch_existing_blob_idempotent_witness:
  "ex_row ''run'' = Some ''SRR1''
   \<and> path_exists
        (files (ex_world [(''temp_gz_files'', Dir), (''temp_gz_files/SRR1.fastq.gz'', File ''ACGT'')]))
        (path_join ''temp_gz_files'' (''SRR1'' @ ''.fastq.gz''))
   \<and> download_single_sra_file (ex_env (HeadRaises (TransportError ''down'')) (GetRaises (TransportError ''down'')) NoOutput)
        ex_row ''temp_gz_files''
        (ex_world [(''temp_gz_files'', Dir), (''temp_gz_files/SRR1.fastq.gz'', File ''ACGT'')]) =
       (Inr (''SRR1'', True),
        \<lparr>files = map_of [(''temp_gz_files'', Dir), (''temp_gz_files/SRR1.fastq.gz'', File ''ACGT'')],
         log = [FileAlreadyExists ''SRR1.fastq.gz'']\<rparr>)
   \<and> download_single_sra_file (ex_env (HeadOk None) (GetStream [''AC'', ''GT''] None) NoOutput)
        ex_row ''temp_gz_files'' (ex_world [(''temp_gz_files'', Dir)]) =
       (Inr (''SRR1'', True),
        \<lparr>files = [''temp_gz_files'' \<mapsto> Dir, ''temp_gz_files/SRR1.fastq.gz'' \<mapsto> File ''ACGT''],
         log = [SuccessfullyDownloaded ''SRR1.fastq.gz'']\<rparr>)
   \<and> download_single_sra_file (ex_env (HeadRaises (TransportError ''down'')) (GetRaises (TransportError ''down'')) NoOutput)
        ex_row ''temp_gz_files''
        \<lparr>files = [''temp_gz_files'' \<mapsto> Dir, ''temp_gz_files/SRR1.fastq.gz'' \<mapsto> File ''ACGT''],
         log = [SuccessfullyDownloaded ''SRR1.fastq.gz'']\<rparr> =
       (Inr (''SRR1'', True),
        \<lparr>files = [''temp_gz_files'' \<mapsto> Dir, ''temp_gz_files/SRR1.fastq.gz'' \<mapsto> File ''ACGT''],
         log = [SuccessfullyDownloaded ''SRR1.fastq.gz'', FileAlreadyExists ''SRR1.fastq.gz'']\<rparr>)"
proof -
  have row: "ex_row ''run'' = Some ''SRR1''"
    by (simp add: ex_row_def)
  have ex: "path_exists
        (files (ex_world [(''temp_gz_files'', Dir), (''temp_gz_files/SRR1.fastq.gz'', File ''ACGT'')]))
        (path_join ''temp_gz_files'' (''SRR1'' @ ''.fastq.gz''))"
    by (simp add: ex_world_def path_exists_def path_join_def)
  have first: "download_single_sra_file (ex_env (HeadOk None) (GetStream [''AC'', ''GT''] None) NoOutput)
        ex_row ''temp_gz_files'' (ex_world [(''temp_gz_files'', Dir)]) =
       (Inr (''SRR1'', True),
        \<lparr>files = [''temp_gz_files'' \<mapsto> Dir, ''temp_gz_files/SRR1.fastq.gz'' \<mapsto> File ''ACGT''],
         log = [SuccessfullyDownloaded ''SRR1.fastq.gz'']\<rparr>)"
    by (simp add: download_single_sra_file_def ex_row_def ex_env_def ex_world_def
        path_exists_def fetch_body_def open_wb_def parent_error_def ex_blob_parent
        write_chunk_def getsize_def logging_def Let_def)
  show ?thesis
    using row ex first
      fetch_existing_blob_idempotent[where run_info = ex_row and sra_id = "''SRR1''"
        and w = "ex_world [(''temp_gz_files'', Dir), (''temp_gz_files/SRR1.fastq.gz'', File ''ACGT'')]"
        and output_dir = "''temp_gz_files''"
        and e = "ex_env (HeadRaises (TransportError ''down'')) (GetRaises (TransportError ''down'')) NoOutput"]
      fetch_existing_blob_idempotent[where run_info = ex_row and sra_id = "''SRR1''"
        and w = "ex_world [(''temp_gz_files'', Dir)]" and output_dir = "''temp_gz_files''"
        and e = "ex_env (HeadOk None) (GetStream [''AC'', ''GT''] None) NoOutput"
        and ?w1.0 = "\<lparr>files = [''temp_gz_files'' \<mapsto> Dir, ''temp_gz_files/SRR1.fastq.gz'' \<mapsto> File ''ACGT''],
         log = [SuccessfullyDownloaded ''SRR1.fastq.gz'']\<rparr>"
        and e' = "ex_env (HeadRaises (TransportError ''down'')) (GetRaises (TransportError ''down'')) NoOutput"]
    by (simp add: logging_def ex_world_def)
qed

lemma download_stream_complete:
  assumes "run_info ''run'' = Some sra_id"
    and "\<not> path_exists (files w) (path_join output_dir (sra_id @ ''.fastq.gz''))"
    and "parent_error (files w) (path_join output_dir (sra_id @ ''.fastq.gz'')) = None"
    and "http_head e (NCBI_TRACE_BASEURL @ sra_id) = HeadOk cl"
    and "http_get e (NCBI_TRACE_BASEURL @ sra_id) = GetStream chunks None"
  shows "download_single_sra_file e run_info output_dir w =
     (let total = (case cl of None \<Rightarrow> 0 | Some n \<Rightarrow> n); actual = int (length (concat chunks)) in
      if actual < total
      then (Inr (sra_id, False),
            logging w (FailedToDownload sra_id (str_exn (size_mismatch actual total))))
      else (Inr (sra_id, True),
            logging (w\<lparr>files := (files w)(path_join output_dir (sra_id @ ''.fastq.gz'') \<mapsto> File (concat chunks))\<rparr>)
              (SuccessfullyDownloaded (sra_id @ ''.fastq.gz''))))"
proof -
  define p where "p = path_join output_dir (sra_id @ ''.fastq.gz'')"
  have none: "files w p = None"
    using assms(2) by (simp add: path_exists_def p_def)
  have par: "parent_error (files w) p = None"
    using assms(3) by (simp add: p_def)
  have same: "(files w)(p := None) = files w"
    using none by (simp add: fun_upd_idem_iff)
  have body: "fetch_body e (NCBI_TRACE_BASEURL @ sra_id) p (files w) =
     (let total = (case cl of None \<Rightarrow> 0 | Some n \<Rightarrow> n); actual = int (length (concat chunks)) in
      (if actual < total then Some (size_mismatch actual total) else None,
       (files w)(p \<mapsto> File (concat chunks))))"
    using none par assms(4) assms(5) by (rule fetch_body_stream_complete)
  show ?thesis
    using assms(1) none same body
    by (simp add: download_single_sra_file_def Let_def path_exists_def os_remove_def logging_def
        p_def[symmetric])
qed

lemma download_no_parent:
  assumes "run_info ''run'' = Some sra_id"
    and "\<not> path_exists (files w) (path_join output_dir (sra_id @ ''.fastq.gz''))"
    and "parent_error (files w) (path_join output_dir (sra_id @ ''.fastq.gz'')) = Some x"
    and "http_head e (NCBI_TRACE_BASEURL @ sra_id) = HeadOk cl"
    and "http_get e (NCBI_TRACE_BASEURL @ sra_id) = GetStream chunks err"
  shows "download_single_sra_file e run_info output_dir w =
     (Inr (sra_id, False), logging w (FailedToDownload sra_id (str_exn x)))"
proof -
  define p where "p = path_join output_dir (sra_id @ ''.fastq.gz'')"
  have none: "files w p = None"
    using assms(2) by (simp add: path_exists_def p_def)
  have par: "parent_error (files w) p = Some x"
    using assms(3) by (simp add: p_def)
  have body: "fetch_body e (NCBI_TRACE_BASEURL @ sra_id) p (files w) = (Some x, files w)"
    using none par assms(4) assms(5) by (rule fetch_body_no_parent)
  show ?thesis
    using assms(1) none body
    by (simp add: download_single_sra_file_def Let_def path_exists_def logging_def
        p_def[symmetric])
qed

text \<open>
  Claim C6. If the body stream ends after fewer bytes than the size probe declared, the
  fetch stage reports failure, no file is left at the local path, and the controller's
  handling of that future adds nothing but the failure message: the item does not reach
  the quality gate. Where the directory of the local path is there, a partial file was
  written and removed and the message is the one of the size check; where it is not,
  the file could not be created and the message is the one of \<^verbatim>\<open>open\<close>.
\<close>

theorem truncated_download_fails_without_gate:
  assumes "run_info ''run'' = Some sra_id"
    and "\<not> path_exists (files w) (path_join output_dir (sra_id @ ''.fastq.gz''))"
    and "http_head e (NCBI_TRACE_BASEURL @ sra_id) = HeadOk (Some expected)"
    and "http_get e (NCBI_TRACE_BASEURL @ sra_id) = GetStream chunks None"
    and "int (length (concat chunks)) < expected"
  shows "\<exists>reason.
           download_single_sra_file e run_info output_dir w =
             (Inr (sra_id, False), logging w (FailedToDownload sra_id reason))
         \<and> \<not> path_exists
               (files (snd (download_single_sra_file e run_info output_dir w)))
               (path_join output_dir (sra_id @ ''.fastq.gz''))
         \<and> handle_completed e output_dir clean_dataset_dir run_info processed_files w =
             (Inr processed_files, logging w (FailedToDownload sra_id reason))
         \<and> (files w (dirname (path_join output_dir (sra_id @ ''.fastq.gz''))) = Some Dir \<longrightarrow>
              reason = str_exn (size_mismatch (int (length (concat chunks))) expected))"
proof (cases "parent_error (files w) (path_join output_dir (sra_id @ ''.fastq.gz''))")
  case None
  have "download_single_sra_file e run_info output_dir w =
      (Inr (sra_id, False),
       logging w (FailedToDownload sra_id
         (str_exn (size_mismatch (int (length (concat chunks))) expected))))"
    using assms download_stream_complete[where run_info = run_info and sra_id = sra_id and w = w
      and output_dir = output_dir and e = e and cl = "Some expected" and chunks = chunks] None
    by (simp add: Let_def)
  then show ?thesis
    using assms(2)
    by (intro exI[of _ "str_exn (size_mismatch (int (length (concat chunks))) expected)"])
      (simp add: handle_completed_def logging_def path_exists_def)
next
  case (Some x)
  have nodir: "files w (dirname (path_join output_dir (sra_id @ ''.fastq.gz''))) \<noteq> Some Dir"
    using Some parent_error_dir[of "files w" "path_join output_dir (sra_id @ ''.fastq.gz'')"]
    by auto
  have "download_single_sra_file e run_info output_dir w =
      (Inr (sra_id, False), logging w (FailedToDownload sra_id (str_exn x)))"
    using assms(1,2) Some assms(3,4) by (rule download_no_parent)
  then show ?thesis
    using assms(2) nodir
    by (intro exI[of _ "str_exn x"]) (simp add: handle_completed_def logging_def path_exists_def)
qed

theorem truncated_download_fails_without_gate_witness:
  "download_single_sra_file
      (ex_env (HeadOk (Some 1000)) (GetStream [replicate 500 (CHR ''A'')] None) NoOutput)
      ex_row ''temp_gz_files'' (ex_world [(''temp_gz_files'', Dir)]) =
     (Inr (''SRR1'', False),
      \<lparr>files = [''temp_gz_files'' \<mapsto> Dir],
       log = [FailedToDownload ''SRR1'' (str_exn (size_mismatch 500 1000))]\<rparr>)
   \<and> handle_completed
      (ex_env (HeadOk (Some 1000)) (GetStream [replicate 500 (CHR ''A'')] None) NoOutput)
      ''temp_gz_files'' ''clean_datasets'' ex_row [] (ex_world [(''temp_gz_files'', Dir)]) =
     (Inr [],
      \<lparr>files = [''temp_gz_files'' \<mapsto> Dir],
       log = [FailedToDownload ''SRR1'' (str_exn (size_mismatch 500 1000))]\<rparr>)
   \<and> files (snd (download_single_sra_file
      (ex_env (HeadOk (Some 1000)) (GetStream [replicate 500 (CHR ''A'')] None) NoOutput)
      ex_row ''temp_gz_files'' (ex_world [(''temp_gz_files'', Dir)]))) ''temp_gz_files/SRR1.fastq.gz''
      = None"
proof -
  have d: "files (ex_world [(''temp_gz_files'', Dir)])
             (dirname (path_join ''temp_gz_files'' (''SRR1'' @ ''.fastq.gz''))) = Some Dir"
    by (simp add: ex_blob_parent ex_world_def)
  have n: "\<not> path_exists (files (ex_world [(''temp_gz_files'', Dir)]))
             (path_join ''temp_gz_files'' (''SRR1'' @ ''.fastq.gz''))"
    by (simp add: ex_blob_parent ex_world_def path_exists_def)
  show ?thesis
    using truncated_download_fails_without_gate[where run_info = ex_row and sra_id = "''SRR1''"
      and w = "ex_world [(''temp_gz_files'', Dir)]" and output_dir = "''temp_gz_files''"
      and expected = 1000 and chunks = "[replicate 500 (CHR ''A'')]"
      and e = "ex_env (HeadOk (Some 1000)) (GetStream [replicate 500 (CHR ''A'')] None) NoOutput"
      and clean_dataset_dir = "''clean_datasets''" and processed_files = "[]"] d n
    by (auto simp: ex_row_def ex_env_def ex_world_def logging_def ex_blob_parent path_exists_def)
qed

text \<open>
  Claim C10. If the size probe carries no content-length header, the expected size is 0
  and the size check cannot fail: once the local file can be created, that is, the
  directory of the local path is there, a body stream that ends without error is
  reported as a success with whatever bytes were written, also none.
\<close>

theorem missing_content_length_always_succeeds:
  assumes "run_info ''run'' = Some sra_id"
    and "\<not> path_exists (files w) (path_join output_dir (sra_id @ ''.fastq.gz''))"
    and "files w (dirname (path_join output_dir (sra_id @ ''.fastq.gz''))) = Some Dir"
    and "http_head e (NCBI_TRACE_BASEURL @ sra_id) = HeadOk None"
    and "http_get e (NCBI_TRACE_BASEURL @ sra_id) = GetStream chunks None"
  shows "download_single_sra_file e run_info output_dir w =
           (Inr (sra_id, True),
            logging (w\<lparr>files := (files w)(path_join output_dir (sra_id @ ''.fastq.gz'')
                                    \<mapsto> File (concat chunks))\<rparr>)
              (SuccessfullyDownloaded (sra_id @ ''.fastq.gz'')))"
  using assms parent_error_dir[of "files w" "path_join output_dir (sra_id @ ''.fastq.gz'')"]
    download_stream_complete[where run_info = run_info and sra_id = sra_id and w = w
      and output_dir = output_dir and e = e and cl = None and chunks = chunks]
  by (simp add: Let_def)

theorem missing_content_length_always_succeeds_witness:
  "download_single_sra_file (ex_env (HeadOk None) (GetStream [] None) NoOutput)
      ex_row ''temp_gz_files'' (ex_world [(''temp_gz_files'', Dir)]) =
     (Inr (''SRR1'', True),
      \<lparr>files = [''temp_gz_files'' \<mapsto> Dir, ''temp_gz_files/SRR1.fastq.gz'' \<mapsto> File []],
       log = [SuccessfullyDownloaded ''SRR1.fastq.gz'']\<rparr>)
   \<and> download_single_sra_file (ex_env (HeadOk None) (GetStream [''AC'', ''GT''] None) NoOutput)
      ex_row ''temp_gz_files'' (ex_world [(''temp_gz_files'', Dir)]) =
     (Inr (''SRR1'', True),
      \<lparr>files = [''temp_gz_files'' \<mapsto> Dir, ''temp_gz_files/SRR1.fastq.gz'' \<mapsto> File ''ACGT''],
       log = [SuccessfullyDownloaded ''SRR1.fastq.gz'']\<rparr>)"
proof -
  have d: "files (ex_world [(''temp_gz_files'', Dir)])
             (dirname (path_join ''temp_gz_files'' (''SRR1'' @ ''.fastq.gz''))) = Some Dir"
    by (simp add: ex_blob_parent ex_world_def)
  have n: "\<not> path_exists (files (ex_world [(''temp_gz_files'', Dir)]))
             (path_join ''temp_gz_files'' (''SRR1'' @ ''.fastq.gz''))"
    by (simp add: ex_blob_parent ex_world_def path_exists_def)
  have r: "ex_row ''run'' = Some ''SRR1''"
    by (simp add: ex_row_def)
  show ?thesis
    using missing_content_length_always_succeeds[where run_info = ex_row and sra_id = "''SRR1''"
        and w = "ex_world [(''temp_gz_files'', Dir)]" and output_dir = "''temp_gz_files''"
        and chunks = "[]" and e = "ex_env (HeadOk None) (GetStream [] None) NoOutput", OF r n d]
      missing_content_length_always_succeeds[where run_info = ex_row and sra_id = "''SRR1''"
        and w = "ex_world [(''temp_gz_files'', Dir)]" and output_dir = "''temp_gz_files''"
        and chunks = "[''AC'', ''GT'']"
        and e = "ex_env (HeadOk None) (GetStream [''AC'', ''GT''] None) NoOutput", OF r n d]
    by (simp add: ex_env_def ex_world_def logging_def ex_blob_parent)
qed

section \<open>Properties of the monitor\<close>

lemma count_line_le: "snd s \<le> fst s \<Longrightarrow> snd (count_line s l) \<le> fst (count_line s l)"
  by (cases s) (simp add: count_line_def)

lemma count_line_mono: "fst s \<le> fst (count_line s l)"
  by (cases s) (simp add: count_line_def)

lemma foldl_count_line_le:
  "snd s \<le> fst s \<Longrightarrow> snd (foldl count_line s ls) \<le> fst (foldl count_line s ls)"
  by (induction ls arbitrary: s) (simp_all add: count_line_le)

lemma foldl_count_line_mono: "fst s \<le> fst (foldl count_line s ls)"
proof (induction ls arbitrary: s)
  case Nil
  show ?case by simp
next
  case (Cons l ls)
  have "fst s \<le> fst (count_line s l)" by (rule count_line_mono)
  also have "\<dots> \<le> fst (foldl count_line (count_line s l) ls)" by (rule Cons.IH)
  finally show ?case by simp
qed

lemma foldl_scan_log_le:
  "snd s \<le> fst s \<Longrightarrow> snd (foldl scan_log s cs) \<le> fst (foldl scan_log s cs)"
  by (induction cs arbitrary: s) (simp_all add: scan_log_def foldl_count_line_le)

text \<open>
  Claim C2. After every poll of the monitor, and so after every page, the count of clean
  datasets is at most the count of checked datasets, and one more poll never lowers the
  count of checked datasets.
\<close>

theorem monitor_clean_le_checked:
  "snd (monitor contents) \<le> fst (monitor contents)
   \<and> fst (monitor contents) \<le> fst (monitor (contents @ [log_content]))"
  by (simp add: monitor_def foldl_scan_log_le scan_log_def foldl_count_line_mono)

section \<open>Properties of the controller\<close>

lemma handle_completed_length:
  "handle_completed e output_dir clean_dataset_dir run_info processed w = (Inr processed', w') \<Longrightarrow>
   length processed' \<le> Suc (length processed)"
  by (auto simp: handle_completed_def Let_def split: prod.splits sum.splits if_splits)

lemma drain_length:
  "drain e output_dir clean_dataset_dir rows processed w = (Inr processed', w') \<Longrightarrow>
   length processed' \<le> length processed + length rows"
proof (induction rows arbitrary: processed w)
  case Nil
  then show ?case by simp
next
  case (Cons run_info rows)
  obtain r w1 where h: "handle_completed e output_dir clean_dataset_dir run_info processed w = (r, w1)"
    by (cases "handle_completed e output_dir clean_dataset_dir run_info processed w")
  show ?case
  proof (cases r)
    case (Inl x)
    with Cons.prems h show ?thesis by simp
  next
    case (Inr p1)
    with Cons.prems h have "drain e output_dir clean_dataset_dir rows p1 w1 = (Inr processed', w')"
      by simp
    then have "length processed' \<le> length p1 + length rows"
      by (rule Cons.IH)
    moreover have "length p1 \<le> Suc (length processed)"
      using h Inr by (simp add: handle_completed_length)
    ultimately show ?thesis by simp
  qed
qed

lemma page_accepts_at_most_its_rows:
  assumes "fst (download_and_process_parallel e rows output_dir clean_dataset_dir w) = Inr processed"
  shows "length processed \<le> length rows"
proof -
  obtain fs0 where "makedirs (files w) output_dir = Inr fs0"
    and d: "fst (drain e output_dir clean_dataset_dir rows [] (w\<lparr>files := fs0\<rparr>)) = Inr processed"
    using assms
    by (auto simp: download_and_process_parallel_def split: sum.splits if_splits)
  then have "drain e output_dir clean_dataset_dir rows [] (w\<lparr>files := fs0\<rparr>)
      = (Inr processed, snd (drain e output_dir clean_dataset_dir rows [] (w\<lparr>files := fs0\<rparr>)))"
    by (metis prod.collapse)
  from drain_length[OF this] show ?thesis by simp
qed

lemma main_body_page:
  assumes "esearch e search_term batch_size (retstart c) = Inr (uids, max_count)"
    and "uids \<noteq> []"
    and "efetch e uids = Inr rows"
    and "fst (download_and_process_parallel e rows GZ_TEMP_FOLDER CLEAN_DATASET_FOLDER (wld c))
          = Inr processed"
  shows "\<exists>c'. main_body e search_term num c =
           (if num \<le> clean_datasets_count c + int (length processed)
               \<or> max_count \<le> retstart c + batch_size then Break else Continue, c')
         \<and> clean_datasets_count c' = clean_datasets_count c + int (length processed)
         \<and> retstart c' = (if num \<le> clean_datasets_count c + int (length processed)
                            then retstart c else retstart c + batch_size)"
proof -
  obtain w1 where "download_and_process_parallel e rows GZ_TEMP_FOLDER CLEAN_DATASET_FOLDER (wld c)
      = (Inr processed, w1)"
    using assms(4) by (metis prod.collapse)
  then show ?thesis
    using assms(1,2,3) by (simp add: main_body_def Let_def)
qed

lemma main_body_error:
  "esearch e search_term batch_size (retstart c) = Inl x \<Longrightarrow>
     main_body e search_term num c = (Continue, c\<lparr>wld := logging (wld c) (ErrorMainLoop (str_exn x))\<rparr>)"
  "esearch e search_term batch_size (retstart c) = Inr (uids, max_count) \<Longrightarrow> uids \<noteq> [] \<Longrightarrow>
     efetch e uids = Inl x \<Longrightarrow>
     main_body e search_term num c = (Continue, c\<lparr>wld := logging (wld c) (ErrorMainLoop (str_exn x))\<rparr>)"
  "esearch e search_term batch_size (retstart c) = Inr (uids, max_count) \<Longrightarrow> uids \<noteq> [] \<Longrightarrow>
     efetch e uids = Inr rows \<Longrightarrow>
     download_and_process_parallel e rows GZ_TEMP_FOLDER CLEAN_DATASET_FOLDER (wld c) = (Inl x, w1) \<Longrightarrow>
     main_body e search_term num c = (Continue, c\<lparr>wld := logging w1 (ErrorMainLoop (str_exn x))\<rparr>)"
  by (simp_all add: main_body_def Let_def)

lemma main_body_break:
  "main_body e search_term num c = (Break, c') \<Longrightarrow>
   \<exists>uids max_count. esearch e search_term batch_size (retstart c) = Inr (uids, max_count)
     \<and> (uids = [] \<or> num \<le> clean_datasets_count c' \<or> max_count \<le> retstart c + batch_size)"
  by (auto simp: main_body_def Let_def split: sum.splits prod.splits if_splits)

lemma main_loop_ends:
  "main_loop es search_term num c = Some c' \<Longrightarrow>
   num \<le> clean_datasets_count c'
   \<or> (\<exists>e \<in> set es. \<exists>cursor uids max_count.
         esearch e search_term batch_size cursor = Inr (uids, max_count)
         \<and> (uids = [] \<or> max_count \<le> cursor + batch_size))"
proof (induction es arbitrary: c)
  case Nil
  then show ?case by (simp split: if_splits)
next
  case (Cons e es)
  show ?case
  proof (cases "clean_datasets_count c < num")
    case False
    with Cons.prems show ?thesis by simp
  next
    case True
    obtain f c1 where b: "main_body e search_term num c = (f, c1)"
      by (cases "main_body e search_term num c")
    show ?thesis
    proof (cases f)
      case Break
      with Cons.prems True b have "c' = c1" by simp
      with main_body_break[of e search_term num c c'] b Break show ?thesis
        by fastforce
    next
      case Continue
      with Cons.prems True b have "main_loop es search_term num c1 = Some c'" by simp
      from Cons.IH[OF this] show ?thesis by auto
    qed
  qed
qed

lemma final_report_counters:
  "clean_datasets_count (snd (final_report num c)) = clean_datasets_count c"
  "retstart (snd (final_report num c)) = retstart c"
  "fst (final_report num c) = (if clean_datasets_count c < num then DonePartial else DoneSuccess)"
  by (simp_all add: final_report_def Let_def)

text \<open>
  Claim C3. The stop condition is read once the whole page has been drained: the count
  grows by the number of items the page accepted, and when it then reaches the target the
  loop ends with the cursor where it was and the run is reported as a success; the final
  count stays below the target plus the number of items of that page. With 25 datasets
  available, 10 per page, a target of 5 and every item of the first page accepted, the
  run is a success after one page with a count of 10.
\<close>

theorem controller_stops_after_target_page:
  assumes "clean_datasets_count c < num"
    and "esearch e search_term batch_size (retstart c) = Inr (uids, max_count)"
    and "uids \<noteq> []"
    and "efetch e uids = Inr rows"
    and "fst (download_and_process_parallel e rows GZ_TEMP_FOLDER CLEAN_DATASET_FOLDER (wld c))
          = Inr processed"
    and "num \<le> clean_datasets_count c + int (length processed)"
  shows "\<exists>c'. main_loop (e # es) search_term num c = Some c'
           \<and> fst (final_report num c') = DoneSuccess
           \<and> clean_datasets_count c' = clean_datasets_count c + int (length processed)
           \<and> clean_datasets_count c' < num + int (length rows)
           \<and> retstart c' = retstart c"
proof -
  obtain c' where b: "main_body e search_term num c = (Break, c')"
    and cnt: "clean_datasets_count c' = clean_datasets_count c + int (length processed)"
    and cur: "retstart c' = retstart c"
    using main_body_page[OF assms(2) assms(3) assms(4) assms(5), of num] assms(6) by auto
  have "length processed \<le> length rows"
    using assms(5) by (rule page_accepts_at_most_its_rows)
  then have "clean_datasets_count c' < num + int (length rows)"
    using cnt assms(1) by simp
  moreover have "main_loop (e # es) search_term num c = Some c'"
    using assms(1) b by simp
  moreover have "fst (final_report num c') = DoneSuccess"
    using cnt assms(6) by (simp add: final_report_counters)
  ultimately show ?thesis
    using cnt cur by blast
qed

theorem controller_stops_after_target_page_witness:
  "esearch (ex_catalog 10 25 ex_pass) ''cancer'' batch_size 0 = Inr ([1, 2, 3, 4, 5, 6, 7, 8, 9, 10], 25)
   \<and> length (projr (fst (download_and_process_parallel (ex_catalog 10 25 ex_pass)
         (projr (efetch (ex_catalog 10 25 ex_pass) [1, 2, 3, 4, 5, 6, 7, 8, 9, 10]))
         GZ_TEMP_FOLDER CLEAN_DATASET_FOLDER (wld (ex_start 5))))) = 10
   \<and> outcome_of (main [ex_catalog 10 25 ex_pass] ''cancer'' 5 (ex_world []))
        = Some (Inr (DoneSuccess, 10, 0))"
proof -
  define e where "e = ex_catalog 10 25 ex_pass"
  define rows where "rows = projr (efetch e [1, 2, 3, 4, 5, 6, 7, 8, 9, 10])"
  define processed where "processed = [''SRR1'', ''SRR2'', ''SRR3'', ''SRR4'', ''SRR5'',
      ''SRR6'', ''SRR7'', ''SRR8'', ''SRR9'', ''SRR10'']"
  have h1: "clean_datasets_count (ex_start 5) < 5"
    by (simp add: ex_start_def)
  have h2: "esearch e ''cancer'' batch_size (retstart (ex_start 5))
      = Inr ([1, 2, 3, 4, 5, 6, 7, 8, 9, 10], 25)"
    unfolding e_def by code_simp
  have h3: "[1, 2, 3, 4, 5, 6, 7, 8, 9, 10] \<noteq> ([]::int list)"
    by simp
  have h4: "efetch e [1, 2, 3, 4, 5, 6, 7, 8, 9, 10] = Inr rows"
    by (simp add: rows_def e_def ex_catalog_def)
  have h5: "fst (download_and_process_parallel e rows GZ_TEMP_FOLDER CLEAN_DATASET_FOLDER
      (wld (ex_start 5))) = Inr processed"
    unfolding rows_def e_def processed_def by code_simp
  have h6: "5 \<le> clean_datasets_count (ex_start 5) + int (length processed)"
    by (simp add: ex_start_def processed_def)
  obtain c' where l: "main_loop [e] ''cancer'' 5 (ex_start 5) = Some c'"
    and o: "fst (final_report 5 c') = DoneSuccess"
    and n: "clean_datasets_count c' = clean_datasets_count (ex_start 5) + int (length processed)"
    and r: "retstart c' = retstart (ex_start 5)"
    using controller_stops_after_target_page[OF h1 h2 h3 h4 h5 h6, of "[]"] by blast
  have m: "main [e] ''cancer'' 5 (ex_world []) = Some (Inr (final_report 5 c'))"
    using l by (simp add: main_def Let_def logging_def ex_world_def makedirs_def GZ_TEMP_FOLDER_def
        ex_start_def)
  have "outcome_of (main [e] ''cancer'' 5 (ex_world [])) = Some (Inr (DoneSuccess, 10, 0))"
    using o n r unfolding m
    by (simp add: outcome_of_def final_report_counters split_beta ex_start_def processed_def)
  moreover have "esearch e ''cancer'' batch_size 0 = Inr ([1, 2, 3, 4, 5, 6, 7, 8, 9, 10], 25)"
    using h2 by (simp add: ex_start_def)
  moreover have "length (projr (fst (download_and_process_parallel e rows GZ_TEMP_FOLDER
      CLEAN_DATASET_FOLDER (wld (ex_start 5))))) = 10"
    using h5 by (simp add: processed_def)
  ultimately show ?thesis
    unfolding e_def rows_def by blast
qed

text \<open>
  Claim C4. While the target is not met, an empty candidate list ends the loop short of
  the target, and so does a page after which the cursor, advanced by the page size,
  reaches the number of available datasets; for a page with fewer rows than the target
  still needs, this holds however many of them are accepted. With 5 datasets available,
  10 per page and a target of 100, the run ends short of the target after one page.
\<close>

theorem controller_stops_partial_on_exhaustion:
  assumes "clean_datasets_count c < num"
  shows "(esearch e search_term batch_size (retstart c) = Inr ([], max_count) \<longrightarrow>
            (\<exists>c'. main_loop (e # es) search_term num c = Some c'
               \<and> fst (final_report num c') = DonePartial
               \<and> clean_datasets_count c' = clean_datasets_count c
               \<and> retstart c' = retstart c))
       \<and> (esearch e search_term batch_size (retstart c) = Inr (uids, max_count) \<and> uids \<noteq> []
            \<and> efetch e uids = Inr rows
            \<and> fst (download_and_process_parallel e rows GZ_TEMP_FOLDER CLEAN_DATASET_FOLDER (wld c))
                 = Inr processed
            \<and> max_count \<le> retstart c + batch_size
            \<and> (clean_datasets_count c + int (length processed) < num
                 \<or> clean_datasets_count c + int (length rows) < num) \<longrightarrow>
            (\<exists>c'. main_loop (e # es) search_term num c = Some c'
               \<and> fst (final_report num c') = DonePartial
               \<and> clean_datasets_count c' = clean_datasets_count c + int (length processed)
               \<and> retstart c' = retstart c + batch_size))"
proof (intro conjI impI)
  assume "esearch e search_term batch_size (retstart c) = Inr ([], max_count)"
  then have "main_body e search_term num c = (Break, c\<lparr>wld := logging (wld c) NoMoreDatasets\<rparr>)"
    by (simp add: main_body_def Let_def)
  then have "main_loop (e # es) search_term num c = Some (c\<lparr>wld := logging (wld c) NoMoreDatasets\<rparr>)"
    using assms by simp
  then show "\<exists>c'. main_loop (e # es) search_term num c = Some c'
               \<and> fst (final_report num c') = DonePartial
               \<and> clean_datasets_count c' = clean_datasets_count c
               \<and> retstart c' = retstart c"
    using assms by (simp add: final_report_counters)
next
  assume h: "esearch e search_term batch_size (retstart c) = Inr (uids, max_count) \<and> uids \<noteq> []
            \<and> efetch e uids = Inr rows
            \<and> fst (download_and_process_parallel e rows GZ_TEMP_FOLDER CLEAN_DATASET_FOLDER (wld c))
                 = Inr processed
            \<and> max_count \<le> retstart c + batch_size
            \<and> (clean_datasets_count c + int (length processed) < num
                 \<or> clean_datasets_count c + int (length rows) < num)"
  then have "length processed \<le> length rows"
    using page_accepts_at_most_its_rows by blast
  with h have short: "clean_datasets_count c + int (length processed) < num"
    by auto
  obtain c' where b: "main_body e search_term num c = (Break, c')"
    and cnt: "clean_datasets_count c' = clean_datasets_count c + int (length processed)"
    and cur: "retstart c' = retstart c + batch_size"
    using main_body_page[of e search_term c uids max_count rows processed num] h short by auto
  have "main_loop (e # es) search_term num c = Some c'"
    using assms b by simp
  moreover have "fst (final_report num c') = DonePartial"
    using cnt short by (simp add: final_report_counters)
  ultimately show "\<exists>c'. main_loop (e # es) search_term num c = Some c'
               \<and> fst (final_report num c') = DonePartial
               \<and> clean_datasets_count c' = clean_datasets_count c + int (length processed)
               \<and> retstart c' = retstart c + batch_size"
    using cnt cur by blast
qed

lemma main_of_ex_start:
  "main es ''cancer'' num (ex_world []) =
     map_option (\<lambda>c. Inr (final_report num c)) (main_loop es ''cancer'' num (ex_start num))"
  by (simp add: main_def Let_def logging_def ex_world_def makedirs_def GZ_TEMP_FOLDER_def
      ex_start_def)

theorem controller_stops_partial_on_exhaustion_witness:
  "outcome_of (main [ex_catalog 5 5 ex_pass] ''cancer'' 100 (ex_world []))
        = Some (Inr (DonePartial, 5, 10))
   \<and> outcome_of (main [ex_catalog 5 5 ex_fail] ''cancer'' 100 (ex_world []))
        = Some (Inr (DonePartial, 0, 10))
   \<and> outcome_of (main [ex_catalog 0 0 ex_pass] ''cancer'' 100 (ex_world []))
        = Some (Inr (DonePartial, 0, 0))"
proof -
  define rows where "rows = projr (efetch (ex_catalog 5 5 ex_pass) [1, 2, 3, 4, 5])"
  have h1: "clean_datasets_count (ex_start 100) < 100"
    by (simp add: ex_start_def)
  have s: "esearch (ex_catalog 5 5 out) ''cancer'' batch_size (retstart (ex_start 100))
      = Inr ([1, 2, 3, 4, 5], 5)" for out
    by (simp add: ex_catalog_def ex_start_def batch_size_def upt_rec)
  have f: "efetch (ex_catalog 5 5 out) [1, 2, 3, 4, 5] = Inr rows" for out
    by (simp add: rows_def ex_catalog_def)
  have n: "length rows = 5"
    by (simp add: rows_def ex_catalog_def)
  have pp: "fst (download_and_process_parallel (ex_catalog 5 5 ex_pass) rows GZ_TEMP_FOLDER
      CLEAN_DATASET_FOLDER (wld (ex_start 100)))
      = Inr [''SRR1'', ''SRR2'', ''SRR3'', ''SRR4'', ''SRR5'']"
    unfolding rows_def by code_simp
  have pf: "fst (download_and_process_parallel (ex_catalog 5 5 ex_fail) rows GZ_TEMP_FOLDER
      CLEAN_DATASET_FOLDER (wld (ex_start 100))) = Inr []"
    unfolding rows_def by code_simp
  have e0: "esearch (ex_catalog 0 0 ex_pass) ''cancer'' batch_size (retstart (ex_start 100))
      = Inr ([], 0)"
    by (simp add: ex_catalog_def)
  have a: "outcome_of (main [ex_catalog 5 5 ex_pass] ''cancer'' 100 (ex_world []))
        = Some (Inr (DonePartial, 5, 10))"
  proof -
    have prem: "esearch (ex_catalog 5 5 ex_pass) ''cancer'' batch_size (retstart (ex_start 100))
          = Inr ([1, 2, 3, 4, 5], 5) \<and> [1, 2, 3, 4, 5] \<noteq> ([]::int list)
        \<and> efetch (ex_catalog 5 5 ex_pass) [1, 2, 3, 4, 5] = Inr rows
        \<and> fst (download_and_process_parallel (ex_catalog 5 5 ex_pass) rows GZ_TEMP_FOLDER
              CLEAN_DATASET_FOLDER (wld (ex_start 100))) = Inr [''SRR1'', ''SRR2'', ''SRR3'', ''SRR4'', ''SRR5'']
        \<and> 5 \<le> retstart (ex_start 100) + batch_size
        \<and> (clean_datasets_count (ex_start 100) + int (length [''SRR1'', ''SRR2'', ''SRR3'', ''SRR4'', ''SRR5'']) < 100
             \<or> clean_datasets_count (ex_start 100) + int (length rows) < 100)"
      using s f pp n by (simp add: ex_start_def batch_size_def)
    have "\<exists>c'. main_loop [ex_catalog 5 5 ex_pass] ''cancer'' 100 (ex_start 100) = Some c'
        \<and> fst (final_report 100 c') = DonePartial
        \<and> clean_datasets_count c' = clean_datasets_count (ex_start 100)
              + int (length [''SRR1'', ''SRR2'', ''SRR3'', ''SRR4'', ''SRR5''])
        \<and> retstart c' = retstart (ex_start 100) + batch_size"
      by (rule controller_stops_partial_on_exhaustion[where c = "ex_start 100" and num = 100
          and e = "ex_catalog 5 5 ex_pass" and search_term = "''cancer''"
          and uids = "[1, 2, 3, 4, 5]" and max_count = 5 and rows = rows
          and processed = "[''SRR1'', ''SRR2'', ''SRR3'', ''SRR4'', ''SRR5'']" and es = "[]",
          OF h1, THEN conjunct2, THEN mp, OF prem])
    then show ?thesis
      by (auto simp: main_of_ex_start outcome_of_def final_report_counters split_beta
          ex_start_def batch_size_def)
  qed
  have b: "outcome_of (main [ex_catalog 5 5 ex_fail] ''cancer'' 100 (ex_world []))
        = Some (Inr (DonePartial, 0, 10))"
  proof -
    have prem: "esearch (ex_catalog 5 5 ex_fail) ''cancer'' batch_size (retstart (ex_start 100))
          = Inr ([1, 2, 3, 4, 5], 5) \<and> [1, 2, 3, 4, 5] \<noteq> ([]::int list)
        \<and> efetch (ex_catalog 5 5 ex_fail) [1, 2, 3, 4, 5] = Inr rows
        \<and> fst (download_and_process_parallel (ex_catalog 5 5 ex_fail) rows GZ_TEMP_FOLDER
              CLEAN_DATASET_FOLDER (wld (ex_start 100))) = Inr ([]::string list)
        \<and> 5 \<le> retstart (ex_start 100) + batch_size
        \<and> (clean_datasets_count (ex_start 100) + int (length ([]::string list)) < 100
             \<or> clean_datasets_count (ex_start 100) + int (length rows) < 100)"
      using s f pf n by (simp add: ex_start_def batch_size_def)
    have "\<exists>c'. main_loop [ex_catalog 5 5 ex_fail] ''cancer'' 100 (ex_start 100) = Some c'
        \<and> fst (final_report 100 c') = DonePartial
        \<and> clean_datasets_count c' = clean_datasets_count (ex_start 100)
              + int (length ([]::string list))
        \<and> retstart c' = retstart (ex_start 100) + batch_size"
      by (rule controller_stops_partial_on_exhaustion[where c = "ex_start 100" and num = 100
          and e = "ex_catalog 5 5 ex_fail" and search_term = "''cancer''"
          and uids = "[1, 2, 3, 4, 5]" and max_count = 5 and rows = rows
          and processed = "([]::string list)" and es = "[]",
          OF h1, THEN conjunct2, THEN mp, OF prem])
    then show ?thesis
      by (auto simp: main_of_ex_start outcome_of_def final_report_counters split_beta
          ex_start_def batch_size_def)
  qed
  have c: "outcome_of (main [ex_catalog 0 0 ex_pass] ''cancer'' 100 (ex_world []))
        = Some (Inr (DonePartial, 0, 0))"
  proof -
    have "\<exists>c'. main_loop [ex_catalog 0 0 ex_pass] ''cancer'' 100 (ex_start 100) = Some c'
        \<and> fst (final_report 100 c') = DonePartial
        \<and> clean_datasets_count c' = clean_datasets_count (ex_start 100)
        \<and> retstart c' = retstart (ex_start 100)"
      by (rule controller_stops_partial_on_exhaustion[where c = "ex_start 100" and num = 100
          and e = "ex_catalog 0 0 ex_pass" and search_term = "''cancer''"
          and max_count = 0 and es = "[]",
          OF h1, THEN conjunct1, THEN mp, OF e0])
    then show ?thesis
      by (auto simp: main_of_ex_start outcome_of_def final_report_counters split_beta
          ex_start_def)
  qed
  show ?thesis
    using a b c by blast
qed

text \<open>
  Claim C9. An exception of the search, of the metadata lookup or of the processing of a
  page is caught in the loop, which continues with the same cursor and the same count.
  The loop is left only when the candidate list is empty, the count has reached the
  target, or the advanced cursor has reached the number of available datasets.
\<close>

theorem controller_retries_same_cursor:
  "(esearch e search_term batch_size (retstart c) = Inl x \<longrightarrow>
      main_body e search_term num c
        = (Continue, c\<lparr>wld := logging (wld c) (ErrorMainLoop (str_exn x))\<rparr>))
   \<and> (esearch e search_term batch_size (retstart c) = Inr (uids, max_count) \<and> uids \<noteq> []
        \<and> efetch e uids = Inl x \<longrightarrow>
      main_body e search_term num c
        = (Continue, c\<lparr>wld := logging (wld c) (ErrorMainLoop (str_exn x))\<rparr>))
   \<and> (esearch e search_term batch_size (retstart c) = Inr (uids, max_count) \<and> uids \<noteq> []
        \<and> efetch e uids = Inr rows
        \<and> download_and_process_parallel e rows GZ_TEMP_FOLDER CLEAN_DATASET_FOLDER (wld c)
             = (Inl x, w1) \<longrightarrow>
      main_body e search_term num c
        = (Continue, c\<lparr>wld := logging w1 (ErrorMainLoop (str_exn x))\<rparr>))
   \<and> (main_body e search_term num c = (Break, c') \<longrightarrow>
        (\<exists>uids' max_count'.
           esearch e search_term batch_size (retstart c) = Inr (uids', max_count')
           \<and> (uids' = [] \<or> num \<le> clean_datasets_count c'
                \<or> max_count' \<le> retstart c + batch_size)))
   \<and> (main_loop es search_term num c = Some c' \<longrightarrow>
        num \<le> clean_datasets_count c'
        \<or> (\<exists>e' \<in> set es. \<exists>cursor uids' max_count'.
              esearch e' search_term batch_size cursor = Inr (uids', max_count')
              \<and> (uids' = [] \<or> max_count' \<le> cursor + batch_size)))"
  using main_body_error[of e search_term c] main_body_break[of e search_term num c c']
    main_loop_ends[of es search_term num c c']
  by blast

theorem controller_retries_same_cursor_witness:
  "main_body (ex_answers (Inl ex_unavailable) (Inr [])) ''cancer'' 5 (ex_start 5)
     = (Continue, (ex_start 5)\<lparr>wld := logging (wld (ex_start 5))
                                   (ErrorMainLoop (str_exn ex_unavailable))\<rparr>)
   \<and> main_body (ex_answers (Inr ([7], 25)) (Inl ex_unavailable)) ''cancer'' 5 (ex_start 5)
     = (Continue, (ex_start 5)\<lparr>wld := logging (wld (ex_start 5))
                                   (ErrorMainLoop (str_exn ex_unavailable))\<rparr>)
   \<and> main_body (ex_answers (Inr ([7], 25)) (Inr [[''experiment'' \<mapsto> ''SRX1'']])) ''cancer'' 5
        (ex_start 5)
     = (Continue, (ex_start 5)\<lparr>wld := logging (wld (ex_start 5))
                                   (ErrorMainLoop (str_exn (KeyError ''run'')))\<rparr>)
   \<and> main_loop [ex_answers (Inl ex_unavailable) (Inr []),
                 ex_answers (Inr ([7], 25)) (Inl ex_unavailable),
                 ex_answers (Inr ([7], 25)) (Inr [[''experiment'' \<mapsto> ''SRX1'']])]
        ''cancer'' 5 (ex_start 5) = None
   \<and> main_loop [ex_answers (Inl ex_unavailable) (Inr []), ex_answers (Inr ([], 25)) (Inr [])]
        ''cancer'' 5 (ex_start 5)
     = Some ((ex_start 5)\<lparr>wld := logging (logging (wld (ex_start 5))
                (ErrorMainLoop (str_exn ex_unavailable))) NoMoreDatasets\<rparr>)"
proof -
  define c1 where "c1 = (ex_start 5)\<lparr>wld := logging (wld (ex_start 5))
                                   (ErrorMainLoop (str_exn ex_unavailable))\<rparr>"
  define c2 where "c2 = c1\<lparr>wld := logging (wld c1) (ErrorMainLoop (str_exn ex_unavailable))\<rparr>"
  have page: "download_and_process_parallel (ex_answers (Inr ([7], 25)) (Inr [[''experiment'' \<mapsto> ''SRX1'']]))
      [[''experiment'' \<mapsto> ''SRX1'']] GZ_TEMP_FOLDER CLEAN_DATASET_FOLDER (wld c)
      = (Inl (KeyError ''run''), wld c)"
    if "files (wld c) GZ_TEMP_FOLDER = Some Dir" for c
    using that by (simp add: download_and_process_parallel_def makedirs_def has_run_def)
  have dir: "files (wld (ex_start 5)) GZ_TEMP_FOLDER = Some Dir"
    "files (wld c1) GZ_TEMP_FOLDER = Some Dir" "files (wld c2) GZ_TEMP_FOLDER = Some Dir"
    by (simp_all add: ex_start_def c1_def c2_def GZ_TEMP_FOLDER_def logging_def)
  have a: "main_body (ex_answers (Inl ex_unavailable) (Inr [])) ''cancer'' 5 (ex_start 5)
      = (Continue, c1)"
    unfolding c1_def
    by (rule controller_retries_same_cursor[where c = "ex_start 5", THEN conjunct1, THEN mp])
      (simp add: ex_answers_def)
  have b: "main_body (ex_answers (Inr ([7], 25)) (Inl ex_unavailable)) ''cancer'' 5 c
      = (Continue, c\<lparr>wld := logging (wld c) (ErrorMainLoop (str_exn ex_unavailable))\<rparr>)" for c
    by (rule controller_retries_same_cursor[where uids = "[7]" and max_count = 25,
          THEN conjunct2, THEN conjunct1, THEN mp])
      (simp add: ex_answers_def)
  have k: "main_body (ex_answers (Inr ([7], 25)) (Inr [[''experiment'' \<mapsto> ''SRX1'']])) ''cancer'' 5 c
      = (Continue, c\<lparr>wld := logging (wld c) (ErrorMainLoop (str_exn (KeyError ''run'')))\<rparr>)"
    if "files (wld c) GZ_TEMP_FOLDER = Some Dir" for c
    by (rule controller_retries_same_cursor[where uids = "[7]" and max_count = 25
          and rows = "[[''experiment'' \<mapsto> ''SRX1'']]",
          THEN conjunct2, THEN conjunct2, THEN conjunct1, THEN mp])
      (simp add: page[OF that], simp add: ex_answers_def)
  have cnt: "clean_datasets_count (ex_start 5) < 5" "clean_datasets_count c1 < 5"
    "clean_datasets_count c2 < 5"
    by (simp_all add: ex_start_def c1_def c2_def)
  have run: "main_loop [ex_answers (Inl ex_unavailable) (Inr []),
                 ex_answers (Inr ([7], 25)) (Inl ex_unavailable),
                 ex_answers (Inr ([7], 25)) (Inr [[''experiment'' \<mapsto> ''SRX1'']])]
        ''cancer'' 5 (ex_start 5) = None"
    using a b[of c1] k[OF dir(3)] cnt by (simp add: c2_def)
  have stop: "main_body (ex_answers (Inr ([], 25)) (Inr [])) ''cancer'' 5 c1
      = (Break, c1\<lparr>wld := logging (wld c1) NoMoreDatasets\<rparr>)"
    by (simp add: main_body_def ex_answers_def)
  have fin: "main_loop [ex_answers (Inl ex_unavailable) (Inr []), ex_answers (Inr ([], 25)) (Inr [])]
        ''cancer'' 5 (ex_start 5) = Some (c1\<lparr>wld := logging (wld c1) NoMoreDatasets\<rparr>)"
    using a stop cnt by simp
  show ?thesis
    using a b[of "ex_start 5"] k[OF dir(1)] run fin
    by (simp add: c1_def)
qed

section \<open>Properties of the quality gate\<close>









lemma find_None_list_ex: "find P xs = None \<longleftrightarrow> \<not> list_ex P xs"
  by (auto simp: find_None_iff list_ex_iff)

lemma gate_try_missing_summary:
  assumes "run_inspector (inspector e gz (files w)) (fastqc_results_dir_of gz tmp) (files w)
             (summary_file_of gz tmp) = None"
  shows "fst (gate_try e gz tmp clean w) = Inr False
       \<and> files (snd (gate_try e gz tmp clean w))
           = run_inspector (inspector e gz (files w)) (fastqc_results_dir_of gz tmp) (files w)"
  using assms by (simp add: gate_try_def Let_def logging_def path_exists_def)

lemma gate_try_failing_summary:
  assumes "run_inspector (inspector e gz (files w)) (fastqc_results_dir_of gz tmp) (files w)
             (summary_file_of gz tmp) = Some (File report)"
    and "list_ex (sublist ''FAIL'') (text_lines [] False report)"
  shows "fst (gate_try e gz tmp clean w) = Inr False
       \<and> files (snd (gate_try e gz tmp clean w))
           = run_inspector (inspector e gz (files w)) (fastqc_results_dir_of gz tmp) (files w)"
proof -
  obtain line where "find (sublist ''FAIL'') (text_lines [] False report) = Some line"
    using assms(2) by (cases "find (sublist ''FAIL'') (text_lines [] False report)")
      (auto simp: find_None_list_ex)
  then show ?thesis
    using assms(1)
    by (simp add: gate_try_def Let_def logging_def path_exists_def read_lines_def)
qed

lemma gate_try_passing_summary:
  assumes "run_inspector (inspector e gz (files w)) (fastqc_results_dir_of gz tmp) (files w) = fs2"
    and "fs2 (summary_file_of gz tmp) = Some (File report)"
    and "\<not> list_ex (sublist ''FAIL'') (text_lines [] False report)"
    and "fs2 gz = Some (File blob)"
    and "makedirs fs2 clean = Inr fs3"
    and "fs3 (path_join clean (basename gz)) \<noteq> Some Dir"
    and "path_join clean (basename gz) \<noteq> gz"
  shows "fst (gate_try e gz tmp clean w) = Inr True
       \<and> files (snd (gate_try e gz tmp clean w))
           = fs3(path_join clean (basename gz) \<mapsto> File blob)"
proof -
  have f: "find (sublist ''FAIL'') (text_lines [] False report) = None"
    using assms(3) by (simp add: find_None_list_ex)
  have g: "fs3 gz = Some (File blob)"
    using assms(4,5) by (auto simp: makedirs_def split: option.splits node.splits)
  show ?thesis
    using assms f g
    by (simp add: gate_try_def Let_def logging_def path_exists_def read_lines_def copy2_def)
qed

text \<open>
  Claim C8. Once FastQC has run, the gate answers \<^verbatim>\<open>False\<close> when no node exists at the
  place of the summary report, and \<^verbatim>\<open>False\<close> when a line of the report contains
  \<^verbatim>\<open>FAIL\<close>. When the report exists and no line contains \<^verbatim>\<open>FAIL\<close>, the gate answers
  \<^verbatim>\<open>True\<close>, the clean store holds the content of the blob under the name of the blob,
  and the blob is still at its place with the same content when the gate returns.
\<close>

theorem quality_gate_verdict:
  assumes "makedirs (files w) (fastqc_output_dir_of tmp) = Inr fs0"
    and "fs2 = run_inspector (inspector e gz fs0) (fastqc_results_dir_of gz tmp) fs0"
    and "\<forall>c. fs2 (fastqc_results_dir_of gz tmp) \<noteq> Some (File c)"
  shows "(fs2 (summary_file_of gz tmp) = None \<longrightarrow>
            fst (run_fastqc_and_save_in_clean_dataset_folder_if_all_params_in_summary_txt_file_are_NOT_FAIL
                   e gz tmp clean w) = Inr False)
       \<and> (fs2 (summary_file_of gz tmp) = Some (File report)
            \<and> list_ex (sublist ''FAIL'') (text_lines [] False report) \<longrightarrow>
            fst (run_fastqc_and_save_in_clean_dataset_folder_if_all_params_in_summary_txt_file_are_NOT_FAIL
                   e gz tmp clean w) = Inr False)
       \<and> (fs2 (summary_file_of gz tmp) = Some (File report)
            \<and> \<not> list_ex (sublist ''FAIL'') (text_lines [] False report)
            \<and> fs2 gz = Some (File blob)
            \<and> makedirs fs2 clean = Inr fs3
            \<and> fs3 (path_join clean (basename gz)) \<noteq> Some Dir
            \<and> path_join clean (basename gz) \<noteq> gz
            \<and> path_join clean (basename gz) \<noteq> fastqc_results_dir_of gz tmp
            \<and> \<not> under (fastqc_results_dir_of gz tmp) (path_join clean (basename gz))
            \<and> \<not> under (fastqc_results_dir_of gz tmp) gz \<longrightarrow>
            fst (run_fastqc_and_save_in_clean_dataset_folder_if_all_params_in_summary_txt_file_are_NOT_FAIL
                   e gz tmp clean w) = Inr True
            \<and> files (snd (run_fastqc_and_save_in_clean_dataset_folder_if_all_params_in_summary_txt_file_are_NOT_FAIL
                   e gz tmp clean w)) (path_join clean (basename gz)) = Some (File blob)
            \<and> files (snd (run_fastqc_and_save_in_clean_dataset_folder_if_all_params_in_summary_txt_file_are_NOT_FAIL
                   e gz tmp clean w)) gz = Some (File blob))"
proof (intro conjI impI)
  let ?G = "run_fastqc_and_save_in_clean_dataset_folder_if_all_params_in_summary_txt_file_are_NOT_FAIL
                   e gz tmp clean w"
  let ?w0 = "w\<lparr>files := fs0\<rparr>"
  let ?r = "fastqc_results_dir_of gz tmp"
  have fs2: "run_inspector (inspector e gz (files ?w0)) ?r (files ?w0) = fs2"
    using assms(2) by simp
  have nofile: "fs2 ?r = None \<or> fs2 ?r = Some Dir"
    using assms(3) by (cases "fs2 ?r") (auto intro: node.exhaust)
  have G: "?G = (let (r, w1) = gate_try e gz tmp clean ?w0;
               (b, w2) = (case r of
                            Inl x \<Rightarrow> (False, logging w1 (ErrorRunningFastQC gz (str_exn x)))
                          | Inr b \<Rightarrow> (b, w1))
           in if path_exists (files w2) ?r
              then (case rmtree (files w2) ?r of
                      Inl x \<Rightarrow> (Inl x, w2)
                    | Inr fs \<Rightarrow> (Inr b, w2\<lparr>files := fs\<rparr>))
              else (Inr b, w2))"
    using assms(1)
    by (simp add: run_fastqc_and_save_in_clean_dataset_folder_if_all_params_in_summary_txt_file_are_NOT_FAIL_def
        Let_def)
  {
    assume "fs2 (summary_file_of gz tmp) = None"
    then have "fst (gate_try e gz tmp clean ?w0) = Inr False
        \<and> files (snd (gate_try e gz tmp clean ?w0)) = fs2"
      using gate_try_missing_summary[of e gz ?w0 tmp clean] fs2 by simp
    then show "fst ?G = Inr False"
      using nofile unfolding G
      by (auto simp: Let_def split_beta path_exists_def rmtree_def)
  }
  {
    assume "fs2 (summary_file_of gz tmp) = Some (File report)
            \<and> list_ex (sublist ''FAIL'') (text_lines [] False report)"
    then have "fst (gate_try e gz tmp clean ?w0) = Inr False
        \<and> files (snd (gate_try e gz tmp clean ?w0)) = fs2"
      using gate_try_failing_summary[of e gz ?w0 tmp report clean] fs2 by simp
    then show "fst ?G = Inr False"
      using nofile unfolding G
      by (auto simp: Let_def split_beta path_exists_def rmtree_def)
  }
  {
    assume h: "fs2 (summary_file_of gz tmp) = Some (File report)
            \<and> \<not> list_ex (sublist ''FAIL'') (text_lines [] False report)
            \<and> fs2 gz = Some (File blob)
            \<and> makedirs fs2 clean = Inr fs3
            \<and> fs3 (path_join clean (basename gz)) \<noteq> Some Dir
            \<and> path_join clean (basename gz) \<noteq> gz
            \<and> path_join clean (basename gz) \<noteq> ?r
            \<and> \<not> under ?r (path_join clean (basename gz))
            \<and> \<not> under ?r gz"
    then have t: "fst (gate_try e gz tmp clean ?w0) = Inr True
        \<and> files (snd (gate_try e gz tmp clean ?w0))
            = fs3(path_join clean (basename gz) \<mapsto> File blob)"
      using gate_try_passing_summary[of e gz ?w0 tmp fs2 report blob clean fs3] fs2 by simp
    have r3: "fs3 ?r = None \<or> fs3 ?r = Some Dir"
      using nofile h by (auto simp: makedirs_def split: option.splits node.splits if_splits)
    have g3: "fs3 gz = Some (File blob)"
      using h by (auto simp: makedirs_def split: option.splits node.splits)
    have ne: "gz \<noteq> ?r" "gz \<noteq> path_join clean (basename gz)"
      using g3 r3 h by auto
    show "fst ?G = Inr True"
      using t r3 h unfolding G
      by (auto simp: Let_def split_beta path_exists_def rmtree_def)
    show "files (snd ?G) (path_join clean (basename gz)) = Some (File blob)"
      using t r3 h unfolding G
      by (auto simp: Let_def split_beta path_exists_def rmtree_def)
    show "files (snd ?G) gz = Some (File blob)"
      using t r3 g3 ne h unfolding G
      by (auto simp: Let_def split_beta path_exists_def rmtree_def)
  }
qed

lemma ex_paths:
  "fastqc_output_dir_of ''temp_gz_files'' = ''temp_gz_files/fastqc_temp''"
  "fastqc_results_dir_of ''temp_gz_files/SRR1.fastq.gz'' ''temp_gz_files''
     = ''temp_gz_files/fastqc_temp/SRR1_fastqc''"
  "summary_file_of ''temp_gz_files/SRR1.fastq.gz'' ''temp_gz_files''
     = ''temp_gz_files/fastqc_temp/SRR1_fastqc/summary.txt''"
  "path_join ''clean_datasets'' (basename ''temp_gz_files/SRR1.fastq.gz'')
     = ''clean_datasets/SRR1.fastq.gz''"
  "path_join ''temp_gz_files/fastqc_temp/SRR1_fastqc'' ''summary.txt''
     = ''temp_gz_files/fastqc_temp/SRR1_fastqc/summary.txt''"
  "under ''temp_gz_files/fastqc_temp/SRR1_fastqc'' ''clean_datasets/SRR1.fastq.gz'' = False"
  "under ''temp_gz_files/fastqc_temp/SRR1_fastqc'' ''temp_gz_files/SRR1.fastq.gz'' = False"
  by code_simp+

lemma ex_reports:
  "inspector (ex_env h g out) p fs = out"
  "list_ex (sublist ''FAIL'') (text_lines [] False ex_bad_report)"
  "\<not> list_ex (sublist ''FAIL'') (text_lines [] False ex_good_report)"
    apply (simp add: ex_env_def)
   apply code_simp
  apply code_simp
  done

theorem quality_gate_verdict_witness:
  "fst (run_fastqc_and_save_in_clean_dataset_folder_if_all_params_in_summary_txt_file_are_NOT_FAIL
          (ex_env (HeadOk None) (GetStream [] None) NoOutput)
          ''temp_gz_files/SRR1.fastq.gz'' ''temp_gz_files'' ''clean_datasets''
          (ex_world [(''temp_gz_files/SRR1.fastq.gz'', File ''ACGT'')])) = Inr False
   \<and> fst (run_fastqc_and_save_in_clean_dataset_folder_if_all_params_in_summary_txt_file_are_NOT_FAIL
          (ex_env (HeadOk None) (GetStream [] None) ex_fail)
          ''temp_gz_files/SRR1.fastq.gz'' ''temp_gz_files'' ''clean_datasets''
          (ex_world [(''temp_gz_files/SRR1.fastq.gz'', File ''ACGT'')])) = Inr False
   \<and> fst (run_fastqc_and_save_in_clean_dataset_folder_if_all_params_in_summary_txt_file_are_NOT_FAIL
          (ex_env (HeadOk None) (GetStream [] None) ex_pass)
          ''temp_gz_files/SRR1.fastq.gz'' ''temp_gz_files'' ''clean_datasets''
          (ex_world [(''temp_gz_files/SRR1.fastq.gz'', File ''ACGT'')])) = Inr True
   \<and> files (snd (run_fastqc_and_save_in_clean_dataset_folder_if_all_params_in_summary_txt_file_are_NOT_FAIL
          (ex_env (HeadOk None) (GetStream [] None) ex_pass)
          ''temp_gz_files/SRR1.fastq.gz'' ''temp_gz_files'' ''clean_datasets''
          (ex_world [(''temp_gz_files/SRR1.fastq.gz'', File ''ACGT'')])))
        ''clean_datasets/SRR1.fastq.gz'' = Some (File ''ACGT'')
   \<and> files (snd (run_fastqc_and_save_in_clean_dataset_folder_if_all_params_in_summary_txt_file_are_NOT_FAIL
          (ex_env (HeadOk None) (GetStream [] None) ex_pass)
          ''temp_gz_files/SRR1.fastq.gz'' ''temp_gz_files'' ''clean_datasets''
          (ex_world [(''temp_gz_files/SRR1.fastq.gz'', File ''ACGT'')])))
        ''temp_gz_files/SRR1.fastq.gz'' = Some (File ''ACGT'')"
proof -
  define w where "w = ex_world [(''temp_gz_files/SRR1.fastq.gz'', File ''ACGT'')]"
  define fs0 where "fs0 = (files w)(''temp_gz_files/fastqc_temp'' \<mapsto> Dir)"
  define fs2 where "fs2 = (\<lambda>out. run_inspector out ''temp_gz_files/fastqc_temp/SRR1_fastqc'' fs0)"
  have m: "makedirs (files w) (fastqc_output_dir_of ''temp_gz_files'') = Inr fs0"
    by (simp add: ex_paths makedirs_def w_def ex_world_def fs0_def)
  have i: "fs2 out = run_inspector
      (inspector (ex_env (HeadOk None) (GetStream [] None) out) ''temp_gz_files/SRR1.fastq.gz'' fs0)
      (fastqc_results_dir_of ''temp_gz_files/SRR1.fastq.gz'' ''temp_gz_files'') fs0" for out
    by (simp add: fs2_def ex_paths ex_reports)
  have d: "\<forall>c. fs2 out (fastqc_results_dir_of ''temp_gz_files/SRR1.fastq.gz'' ''temp_gz_files'')
      \<noteq> Some (File c)" for out
    by (simp add: fs2_def ex_paths run_inspector_def fs0_def w_def ex_world_def
        split: inspector_output.splits option.splits)
  note v = quality_gate_verdict[where w = w and tmp = "''temp_gz_files''"
      and gz = "''temp_gz_files/SRR1.fastq.gz''" and clean = "''clean_datasets''", OF m i d]
  define gz where "gz = ''temp_gz_files/SRR1.fastq.gz''"
  define tmp where "tmp = ''temp_gz_files''"
  have a: "fs2 NoOutput (summary_file_of gz tmp) = None"
    by (simp add: gz_def tmp_def fs2_def ex_paths run_inspector_def fs0_def w_def ex_world_def)
  have b: "fs2 ex_fail (summary_file_of gz tmp) = Some (File ex_bad_report)
      \<and> list_ex (sublist ''FAIL'') (text_lines [] False ex_bad_report)"
    by (simp add: gz_def tmp_def fs2_def ex_paths run_inspector_def ex_fail_def ex_reports)
  have c: "fs2 ex_pass (summary_file_of gz tmp) = Some (File ex_good_report)
      \<and> \<not> list_ex (sublist ''FAIL'') (text_lines [] False ex_good_report)
      \<and> fs2 ex_pass gz = Some (File ''ACGT'')
      \<and> makedirs (fs2 ex_pass) ''clean_datasets'' = Inr ((fs2 ex_pass)(''clean_datasets'' \<mapsto> Dir))
      \<and> ((fs2 ex_pass)(''clean_datasets'' \<mapsto> Dir)) (path_join ''clean_datasets'' (basename gz))
           \<noteq> Some Dir
      \<and> path_join ''clean_datasets'' (basename gz) \<noteq> gz
      \<and> path_join ''clean_datasets'' (basename gz) \<noteq> fastqc_results_dir_of gz tmp
      \<and> \<not> under (fastqc_results_dir_of gz tmp) (path_join ''clean_datasets'' (basename gz))
      \<and> \<not> under (fastqc_results_dir_of gz tmp) gz"
    by (simp add: gz_def tmp_def fs2_def ex_paths run_inspector_def ex_pass_def fs0_def
        w_def ex_world_def makedirs_def ex_reports)
  note va = v[of NoOutput, THEN conjunct1, THEN mp, OF a[unfolded gz_def tmp_def]]
  note vb = v[of ex_fail ex_bad_report, THEN conjunct2, THEN conjunct1, THEN mp, OF b[unfolded gz_def tmp_def]]
  note vc = v[of ex_pass ex_good_report "''ACGT''" "(fs2 ex_pass)(''clean_datasets'' \<mapsto> Dir)",
      THEN conjunct2, THEN conjunct2, THEN mp, OF c[unfolded gz_def tmp_def]]
  show ?thesis
    using va vb vc by (simp add: ex_paths w_def)
qed

section \<open>Cleanup of the scratch storage\<close>










































section \<open>What the monitor counts for a page\<close>















end
